theory Spec2Isabelle
  imports Complex_Main "HOL-Library.List_Lexorder" "HOL-Library.Char_ord"
begin

section \<open>Moving-average crossover strategies on panel data\<close>

text \<open>
  The notebook \<^verbatim>\<open>Completed/10. Panel Strategies.ipynb\<close> works on a pandas data frame
  with a \<^verbatim>\<open>Ticker\<close> column and a \<^verbatim>\<open>DlyClose\<close> column. It defines
  \<^verbatim>\<open>calculate_sma\<close>, applies it group-wise to the panel, computes daily and cumulative
  returns per ticker, and then runs an exponential moving average crossover on one stock.

  Numbers: a float64 that is finite is modelled by a real number (rounding and overflow
  are left out); the special values are explicit, because the code depends on them:
  \<^verbatim>\<open>NaN\<close> marks a missing value, and a division by a zero price gives an infinity.
  Signed zeros are left out. The close prices that come in are finite: a price series has
  no gaps. Window lengths are those that fit a 64-bit integer.
\<close>

subsection \<open>Float cells\<close>

datatype cell = NaN | Val real | Infty bool
  \<comment> \<open>\<open>Infty True\<close> is \<open>+inf\<close>, \<open>Infty False\<close> is \<open>-inf\<close>\<close>

fun fadd :: "cell \<Rightarrow> cell \<Rightarrow> cell" where
  "fadd NaN _ = NaN"
| "fadd _ NaN = NaN"
| "fadd (Val a) (Val b) = Val (a + b)"
| "fadd (Val a) (Infty s) = Infty s"
| "fadd (Infty s) (Val b) = Infty s"
| "fadd (Infty s) (Infty t) = (if s = t then Infty s else NaN)"

fun fneg :: "cell \<Rightarrow> cell" where
  "fneg NaN = NaN"
| "fneg (Val a) = Val (- a)"
| "fneg (Infty s) = Infty (\<not> s)"

definition fsub :: "cell \<Rightarrow> cell \<Rightarrow> cell" where
  "fsub x y = fadd x (fneg y)"

fun fmul :: "cell \<Rightarrow> cell \<Rightarrow> cell" where
  "fmul NaN _ = NaN"
| "fmul _ NaN = NaN"
| "fmul (Val a) (Val b) = Val (a * b)"
| "fmul (Val a) (Infty s) = (if a = 0 then NaN else Infty (if 0 < a then s else \<not> s))"
| "fmul (Infty s) (Val b) = (if b = 0 then NaN else Infty (if 0 < b then s else \<not> s))"
| "fmul (Infty s) (Infty t) = Infty (s = t)"

fun fdiv :: "cell \<Rightarrow> cell \<Rightarrow> cell" where
  "fdiv NaN _ = NaN"
| "fdiv _ NaN = NaN"
| "fdiv (Val a) (Val b) =
     (if b = 0 then (if a = 0 then NaN else Infty (0 < a)) else Val (a / b))"
| "fdiv (Val a) (Infty s) = Val 0"
| "fdiv (Infty s) (Val b) = Infty (if 0 \<le> b then s else \<not> s)"
| "fdiv (Infty s) (Infty t) = NaN"

fun fgt :: "cell \<Rightarrow> cell \<Rightarrow> bool" where
  "fgt NaN _ = False"
| "fgt _ NaN = False"
| "fgt (Val a) (Val b) = (b < a)"
| "fgt (Val a) (Infty s) = (\<not> s)"
| "fgt (Infty s) (Val b) = s"
| "fgt (Infty s) (Infty t) = (s \<and> \<not> t)"

definition isna :: "cell \<Rightarrow> bool" where
  "isna x = (x = NaN)"

subsection \<open>Library operations on columns\<close>

datatype error = ValueError | AttributeError | KeyError | IndexError

text \<open>
  \<^verbatim>\<open>s.rolling(window=w).mean()\<close>: pandas rejects a negative window with a ValueError
  and accepts 0; the minimum number of observations is the window itself, so the mean is
  missing until \<open>w\<close> points are there, and a window of 0 has no observation at all.
  A window of \<open>2 ^ 63\<close> or more does not fit the library's integers and is outside the
  model: the statements about failures are for windows below that.
\<close>

definition window_mean :: "nat \<Rightarrow> real list \<Rightarrow> nat \<Rightarrow> cell" where
  "window_mean w xs i =
     (if w = 0 \<or> i + 1 < w then NaN
      else Val (sum_list (take w (drop (i + 1 - w) xs)) / real w))"

definition rolling_mean :: "int \<Rightarrow> real list \<Rightarrow> error + cell list" where
  "rolling_mean w xs =
     (if w < 0 then Inl ValueError
      else Inr (map (window_mean (nat w) xs) [0..<length xs]))"

text \<open>
  \<^verbatim>\<open>s.ewm(span=w, adjust=False).mean()\<close>: pandas rejects a span below 1; the smoothing
  factor is \<open>2 / (span + 1)\<close>, the first value is the first price, and each later value
  is \<open>(1 - \<alpha>) * previous + \<alpha> * price\<close>.
\<close>

fun ewm_from :: "real \<Rightarrow> real \<Rightarrow> real list \<Rightarrow> real list" where
  "ewm_from \<alpha> y [] = []"
| "ewm_from \<alpha> y (x # xs) = ((1 - \<alpha>) * y + \<alpha> * x) # ewm_from \<alpha> ((1 - \<alpha>) * y + \<alpha> * x) xs"

definition ewm_mean :: "int \<Rightarrow> real list \<Rightarrow> error + cell list" where
  "ewm_mean w xs =
     (if w < 1 then Inl ValueError
      else Inr (case xs of [] \<Rightarrow> []
                | x # rest \<Rightarrow> Val x # map Val (ewm_from (2 / (real_of_int w + 1)) x rest)))"

text \<open>\<^verbatim>\<open>np.where(a > b, 1, -1)\<close> and \<^verbatim>\<open>np.where(slow.isna(), 0, signal)\<close>.\<close>

definition where_gt :: "cell list \<Rightarrow> cell list \<Rightarrow> cell list" where
  "where_gt fast slow = map (\<lambda>(a, b). if fgt a b then Val 1 else Val (- 1)) (zip fast slow)"

definition where_isna :: "cell list \<Rightarrow> cell list \<Rightarrow> cell list" where
  "where_isna slow signal = map (\<lambda>(b, s). if isna b then Val 0 else s) (zip slow signal)"

text \<open>\<^verbatim>\<open>s.shift()\<close>: every value moves one row down, the first row is missing.\<close>

definition shift :: "cell list \<Rightarrow> cell list" where
  "shift xs = (case xs of [] \<Rightarrow> [] | _ # _ \<Rightarrow> NaN # butlast xs)"

definition mul_col :: "cell list \<Rightarrow> cell list \<Rightarrow> cell list" where
  "mul_col xs ys = map (\<lambda>(x, y). fmul x y) (zip xs ys)"

definition one_plus :: "cell list \<Rightarrow> cell list" where
  "one_plus xs = map (fadd (Val 1)) xs"

definition minus_one :: "cell list \<Rightarrow> cell list" where
  "minus_one xs = map (\<lambda>x. fsub x (Val 1)) xs"

text \<open>A shift whose first row holds a given value: the shift of a series that goes on.\<close>

definition shift_from :: "cell \<Rightarrow> cell list \<Rightarrow> cell list" where
  "shift_from p xs = (case xs of [] \<Rightarrow> [] | _ # _ \<Rightarrow> p # butlast xs)"

text \<open>
  \<^verbatim>\<open>s.pct_change()\<close> is \<^verbatim>\<open>s / s.shift() - 1\<close>.
\<close>

definition pct_of :: "cell list \<Rightarrow> cell list \<Rightarrow> cell list" where
  "pct_of xs prev = map (\<lambda>(x, p). fsub (fdiv x p) (Val 1)) (zip xs prev)"

definition pct_change :: "real list \<Rightarrow> cell list" where
  "pct_change xs = pct_of (map Val xs) (shift (map Val xs))"

text \<open>
  \<^verbatim>\<open>s.cumprod()\<close> skips missing values: the row stays missing and the running product
  goes on from the last value before it.
\<close>

fun cumprod_from :: "cell \<Rightarrow> cell list \<Rightarrow> cell list" where
  "cumprod_from a [] = []"
| "cumprod_from a (x # xs) =
     (if isna x then NaN # cumprod_from a xs
      else fmul a x # cumprod_from (fmul a x) xs)"

definition cumprod :: "cell list \<Rightarrow> cell list" where
  "cumprod xs = cumprod_from (Val 1) xs"

text \<open>
  The grouped operations run over the rows once and keep one state per group key, as the
  library's grouped kernels do: the last value seen for \<^verbatim>\<open>shift\<close>, the running product
  for \<^verbatim>\<open>cumprod\<close>. The result is in the row order of the frame.
\<close>

fun grp_shift :: "string list \<Rightarrow> cell list \<Rightarrow> (string \<rightharpoonup> cell) \<Rightarrow> cell list" where
  "grp_shift (k # ks) (x # xs) last_seen =
     (case last_seen k of None \<Rightarrow> NaN | Some p \<Rightarrow> p) # grp_shift ks xs (last_seen(k \<mapsto> x))"
| "grp_shift _ _ last_seen = []"

definition grp_pct_change :: "string list \<Rightarrow> real list \<Rightarrow> cell list" where
  "grp_pct_change ks xs = pct_of (map Val xs) (grp_shift ks (map Val xs) Map.empty)"

fun grp_cumprod_from :: "(string \<rightharpoonup> cell) \<Rightarrow> string list \<Rightarrow> cell list \<Rightarrow> cell list" where
  "grp_cumprod_from accum (k # ks) (x # xs) =
     (if isna x then NaN # grp_cumprod_from accum ks xs
      else (let a = fmul (case accum k of None \<Rightarrow> Val 1 | Some a \<Rightarrow> a) x
            in a # grp_cumprod_from (accum(k \<mapsto> a)) ks xs))"
| "grp_cumprod_from accum _ _ = []"

definition grp_cumprod :: "string list \<Rightarrow> cell list \<Rightarrow> cell list" where
  "grp_cumprod ks xs = grp_cumprod_from Map.empty ks xs"

subsection \<open>Data frames\<close>

text \<open>
  A frame has the key column, the price column and the derived float columns by name.
  Every column of a frame has one value per row.
\<close>

record frame =
  Ticker :: "string list"
  DlyClose :: "real list"
  cols :: "string \<rightharpoonup> cell list"

definition nrows :: "frame \<Rightarrow> nat" where
  "nrows f = length (Ticker f)"

definition wf_frame :: "frame \<Rightarrow> bool" where
  "wf_frame f \<longleftrightarrow>
     length (DlyClose f) = length (Ticker f) \<and>
     (\<forall>n c. cols f n = Some c \<longrightarrow> length c = length (Ticker f))"

definition set_col :: "frame \<Rightarrow> string \<Rightarrow> cell list \<Rightarrow> frame" where
  "set_col f n c = f\<lparr>cols := (cols f)(n \<mapsto> c)\<rparr>"

text \<open>\<^verbatim>\<open>df[mask]\<close>: the rows where the mask holds, in every column.\<close>

definition compress :: "bool list \<Rightarrow> 'a list \<Rightarrow> 'a list" where
  "compress msk xs = map snd (filter fst (zip msk xs))"

definition key_mask :: "string \<Rightarrow> string list \<Rightarrow> bool list" where
  "key_mask k ks = map (\<lambda>t. t = k) ks"

definition get_rows :: "bool list \<Rightarrow> frame \<Rightarrow> frame" where
  "get_rows msk f =
     \<lparr>Ticker = compress msk (Ticker f),
      DlyClose = compress msk (DlyClose f),
      cols = (\<lambda>n. map_option (compress msk) (cols f n))\<rparr>"

text \<open>\<^verbatim>\<open>df[df.Ticker == k]\<close>: the rows of one ticker, which is also the group of that key.\<close>

definition key_rows :: "string \<Rightarrow> frame \<Rightarrow> frame" where
  "key_rows k df = get_rows (key_mask k (Ticker df)) df"

definition get_group :: "frame \<Rightarrow> string \<Rightarrow> error + frame" where
  "get_group df k = (if k \<in> set (Ticker df) then Inr (key_rows k df) else Inl KeyError)"

text \<open>\<^verbatim>\<open>df.groupby("Ticker")\<close>, iterated: the groups in the order of their sorted keys.\<close>

definition groupby :: "frame \<Rightarrow> (string \<times> frame) list" where
  "groupby df = map (\<lambda>k. (k, key_rows k df)) (sort (remdups (Ticker df)))"

text \<open>
  \<^verbatim>\<open>pd.concat(frames)\<close>: the rows of the frames one after the other; a column that one
  of the frames lacks is filled with missing values there; no frame at all is a ValueError.
\<close>

definition concat_col :: "frame list \<Rightarrow> string \<Rightarrow> cell list option" where
  "concat_col fs n =
     (if list_all (\<lambda>f. cols f n = None) fs then None
      else Some (concat (map (\<lambda>f. case cols f n of
                                     None \<Rightarrow> replicate (nrows f) NaN
                                   | Some c \<Rightarrow> c) fs)))"

definition pd_concat :: "frame list \<Rightarrow> error + frame" where
  "pd_concat fs =
     (if fs = [] then Inl ValueError
      else Inr \<lparr>Ticker = concat (map Ticker fs),
                DlyClose = concat (map DlyClose fs),
                cols = concat_col fs\<rparr>)"

subsection \<open>The notebook's code\<close>

text \<open>
  \<^verbatim>\<open>
  def calculate_sma(dfi, fast_window, slow_window):
      dfi["FastMA"] = dfi.DlyClose.rolling(window=fast_window).mean()
      dfi["SlowMA"] = dfi.DlyClose.rolling(window=slow_window).mean()
      dfi["Signal"] = np.where(dfi.FastMA > dfi.SlowMA, 1, -1)
      dfi.Signal = np.where(dfi.SlowMA.isna(), 0, dfi.Signal)
      dfi["Position"] = dfi.Signal.shift()
      return dfi
  \<close>
  The notebook gives the statements out of order, as an exercise, and fixes no order. The
  frame is changed in place and returned: the model returns the exception, if one was
  raised, and the frame as the call leaves it. A column read right after its assignment is
  the value assigned.

  The arrangements that run on a frame of prices are those with both averages assigned
  before the signal, the signal before its zeroing and before the position, and the return
  last: four of them, by which average comes first and by whether the position is assigned
  before the signal is zeroed. \<open>calculate_sma\<close> is the arrangement above, which is the order
  of the exponential cell; \<open>calculate_sma_in\<close> has the arrangement as two parameters. The
  arrangements differ in the position column and in what a failed call leaves in the frame,
  and in nothing else.
\<close>

definition calculate_sma :: "frame \<Rightarrow> int \<Rightarrow> int \<Rightarrow> error option \<times> frame" where
  "calculate_sma dfi fast_window slow_window =
     (case rolling_mean fast_window (DlyClose dfi) of
        Inl e \<Rightarrow> (Some e, dfi)
      | Inr fastma \<Rightarrow>
          (let dfi1 = set_col dfi ''FastMA'' fastma in
           case rolling_mean slow_window (DlyClose dfi1) of
             Inl e \<Rightarrow> (Some e, dfi1)
           | Inr slowma \<Rightarrow>
               (let dfi2 = set_col dfi1 ''SlowMA'' slowma;
                    signal0 = where_gt fastma slowma;
                    dfi3 = set_col dfi2 ''Signal'' signal0;
                    signal = where_isna slowma signal0;
                    dfi4 = set_col dfi3 ''Signal'' signal;
                    dfi5 = set_col dfi4 ''Position'' (shift signal)
                in (None, dfi5))))"

definition calculate_sma_in ::
  "bool \<Rightarrow> bool \<Rightarrow> frame \<Rightarrow> int \<Rightarrow> int \<Rightarrow> error option \<times> frame" where
  "calculate_sma_in slow_first position_first dfi fast_window slow_window =
     (let n1 = (if slow_first then ''SlowMA'' else ''FastMA'');
          w1 = (if slow_first then slow_window else fast_window);
          n2 = (if slow_first then ''FastMA'' else ''SlowMA'');
          w2 = (if slow_first then fast_window else slow_window)
      in case rolling_mean w1 (DlyClose dfi) of
           Inl e \<Rightarrow> (Some e, dfi)
         | Inr c1 \<Rightarrow>
             (let dfi1 = set_col dfi n1 c1 in
              case rolling_mean w2 (DlyClose dfi1) of
                Inl e \<Rightarrow> (Some e, dfi1)
              | Inr c2 \<Rightarrow>
                  (let dfi2 = set_col dfi1 n2 c2;
                       fastma = (if slow_first then c2 else c1);
                       slowma = (if slow_first then c1 else c2);
                       signal0 = where_gt fastma slowma;
                       dfi3 = set_col dfi2 ''Signal'' signal0
                   in if position_first then
                        (let dfi4 = set_col dfi3 ''Position'' (shift signal0);
                             dfi5 = set_col dfi4 ''Signal'' (where_isna slowma signal0)
                         in (None, dfi5))
                      else
                        (let signal = where_isna slowma signal0;
                             dfi4 = set_col dfi3 ''Signal'' signal;
                             dfi5 = set_col dfi4 ''Position'' (shift signal)
                         in (None, dfi5)))))"

text \<open>The frame as a call of \<^verbatim>\<open>calculate_sma\<close> leaves it.\<close>

definition sma_out :: "frame \<Rightarrow> int \<Rightarrow> int \<Rightarrow> frame" where
  "sma_out g fw sw = snd (calculate_sma g fw sw)"

text \<open>
  \<^verbatim>\<open>
  grouped = df.groupby("Ticker")
  groups = []
  for name, group in grouped:
      groups.append(calculate_sma(group, 50, 200))
  df = pd.concat(groups)
  \<close>
  The windows 50 and 200 are parameters of the model.
\<close>

fun sma_groups :: "(string \<times> frame) list \<Rightarrow> int \<Rightarrow> int \<Rightarrow> error + frame list" where
  "sma_groups [] fast_window slow_window = Inr []"
| "sma_groups ((name, grp) # rest) fast_window slow_window =
     (case calculate_sma grp fast_window slow_window of
        (Some e, _) \<Rightarrow> Inl e
      | (None, g) \<Rightarrow>
          (case sma_groups rest fast_window slow_window of
             Inl e \<Rightarrow> Inl e
           | Inr groups \<Rightarrow> Inr (g # groups)))"

definition panel_sma :: "frame \<Rightarrow> int \<Rightarrow> int \<Rightarrow> error + frame" where
  "panel_sma df fast_window slow_window =
     (case sma_groups (groupby df) fast_window slow_window of
        Inl e \<Rightarrow> Inl e
      | Inr groups \<Rightarrow> pd_concat groups)"

text \<open>
  \<^verbatim>\<open>
  df["MarketDaily"] = df.groupby("Ticker").DlyClose.pct_change()
  df["StrategyDaily"] = df.Position * df.MarketDaily
  df["Market"] = (1 + df.MarketDaily).groupby(df.Ticker).cumprod()
  df["Strategy"] = (1 + df.StrategyDaily).groupby(df.Ticker).cumprod()
  \<close>
\<close>

definition panel_returns :: "frame \<Rightarrow> error + frame" where
  "panel_returns df =
     (let market_daily = grp_pct_change (Ticker df) (DlyClose df);
          df1 = set_col df ''MarketDaily'' market_daily
      in case cols df1 ''Position'' of
           None \<Rightarrow> Inl AttributeError
         | Some position \<Rightarrow>
             (let strategy_daily = mul_col position market_daily;
                  df2 = set_col df1 ''StrategyDaily'' strategy_daily;
                  df3 = set_col df2 ''Market'' (grp_cumprod (Ticker df2) (one_plus market_daily));
                  df4 = set_col df3 ''Strategy''
                          (grp_cumprod (Ticker df3) (one_plus strategy_daily))
              in Inr df4))"

definition panel_strategy :: "frame \<Rightarrow> int \<Rightarrow> int \<Rightarrow> error + frame" where
  "panel_strategy df fast_window slow_window =
     (case panel_sma df fast_window slow_window of
        Inl e \<Rightarrow> Inl e
      | Inr df' \<Rightarrow> panel_returns df')"

text \<open>
  \<^verbatim>\<open>
  ema = meta.copy()
  fast_window, slow_window = 50, 200
  ema["FastEMA"] = ema.DlyClose.ewm(span=fast_window, adjust=False).mean()
  ema["SlowEMA"] = ema.DlyClose.ewm(span=slow_window, adjust=False).mean()
  ema["Signal"] = np.where(ema.FastEMA > ema.SlowEMA, 1, -1)
  ema["Signal"] = np.where(ema.SlowEMA.isna(), 0, ema.Signal)
  ema["Position"] = ema.Signal.shift()
  ema["StratRet"] = ema.Position * ema.MarketDaily
  ema["Strategy"] = (1 + ema.StratRet).cumprod() - 1
  print("Short window:", fast_window, "Long window:", slow_window)
  print("Cumulative Strategy Return is", ema.Strategy.iloc[-1])
  \<close>
  \<open>meta\<close> is one ticker's rows of the panel with its return columns; the cell works on a
  copy, so its result is a new frame. The windows are parameters of the model.
  \<open>ema_strategy\<close> is the assignments of the cell; \<open>ema_cell\<close> is the whole cell, with the
  last line, where \<^verbatim>\<open>iloc[-1]\<close> raises IndexError on a column without rows. It returns
  the frame and the number printed.
\<close>

definition ema_strategy :: "frame \<Rightarrow> int \<Rightarrow> int \<Rightarrow> error + frame" where
  "ema_strategy meta fast_window slow_window =
     (case ewm_mean fast_window (DlyClose meta) of
        Inl e \<Rightarrow> Inl e
      | Inr fastema \<Rightarrow>
          (let ema1 = set_col meta ''FastEMA'' fastema in
           case ewm_mean slow_window (DlyClose ema1) of
             Inl e \<Rightarrow> Inl e
           | Inr slowema \<Rightarrow>
               (let ema2 = set_col ema1 ''SlowEMA'' slowema;
                    signal0 = where_gt fastema slowema;
                    ema3 = set_col ema2 ''Signal'' signal0;
                    signal = where_isna slowema signal0;
                    ema4 = set_col ema3 ''Signal'' signal;
                    position = shift signal;
                    ema5 = set_col ema4 ''Position'' position
                in case cols ema5 ''MarketDaily'' of
                     None \<Rightarrow> Inl AttributeError
                   | Some market_daily \<Rightarrow>
                       (let stratret = mul_col position market_daily;
                            ema6 = set_col ema5 ''StratRet'' stratret;
                            ema7 = set_col ema6 ''Strategy''
                                     (minus_one (cumprod (one_plus stratret)))
                        in Inr ema7))))"

definition iloc_last :: "cell list \<Rightarrow> error + cell" where
  "iloc_last xs = (if xs = [] then Inl IndexError else Inr (last xs))"

definition ema_cell :: "frame \<Rightarrow> int \<Rightarrow> int \<Rightarrow> error + frame \<times> cell" where
  "ema_cell meta fast_window slow_window =
     (case ema_strategy meta fast_window slow_window of
        Inl e \<Rightarrow> Inl e
      | Inr ema \<Rightarrow>
          (case cols ema ''Strategy'' of
             None \<Rightarrow> Inl AttributeError
           | Some strategy \<Rightarrow>
               (case iloc_last strategy of
                  Inl e \<Rightarrow> Inl e
                | Inr v \<Rightarrow> Inr (ema, v))))"

subsection \<open>Example frames\<close>

definition ex_prices :: frame where
  "ex_prices =
     \<lparr>Ticker = replicate 6 ''META'', DlyClose = [10, 10, 12, 9, 8, 14], cols = Map.empty\<rparr>"

definition ex_meta :: frame where
  "ex_meta =
     \<lparr>Ticker = replicate 6 ''META'', DlyClose = [10, 10, 12, 9, 8, 14],
      cols = [''MarketDaily'' \<mapsto>
                [NaN, Val 0, Val (1 / 5), Val (- (1 / 4)), Val (- (1 / 9)), Val (3 / 4)]]\<rparr>"

definition empty_frame :: frame where
  "empty_frame = \<lparr>Ticker = [], DlyClose = [], cols = Map.empty\<rparr>"

definition empty_meta :: frame where
  "empty_meta = \<lparr>Ticker = [], DlyClose = [], cols = [''MarketDaily'' \<mapsto> []]\<rparr>"

definition ex_panel :: frame where
  "ex_panel =
     \<lparr>Ticker = [''B'', ''A'', ''B'', ''A'', ''A'', ''B''],
      DlyClose = [10, 10, 12, 12, 9, 9], cols = Map.empty\<rparr>"

section \<open>Properties\<close>

subsection \<open>Columns\<close>


lemma length_where_gt: "length (where_gt a b) = min (length a) (length b)"
  by (simp add: where_gt_def)

lemma length_where_isna: "length (where_isna a b) = min (length a) (length b)"
  by (simp add: where_isna_def)

lemma length_shift: "length (shift xs) = length xs"
  by (cases xs) (simp_all add: shift_def)

lemma shift_nth_0: "0 < length xs \<Longrightarrow> shift xs ! 0 = NaN"
  by (cases xs) (simp_all add: shift_def)

lemma shift_nth_pos: "0 < i \<Longrightarrow> i < length xs \<Longrightarrow> shift xs ! i = xs ! (i - 1)"
proof -
  assume a: "0 < i" "i < length xs"
  then obtain j where j: "i = Suc j" by (cases i) auto
  from a obtain y ys where xs: "xs = y # ys" by (cases xs) auto
  have "j < length (butlast xs)" using a j by simp
  then have "butlast xs ! j = xs ! j" by (rule nth_butlast)
  then show ?thesis using j xs by (simp add: shift_def del: butlast.simps)
qed

lemma nth_where_gt:
  "i < length a \<Longrightarrow> i < length b \<Longrightarrow>
   where_gt a b ! i = (if fgt (a ! i) (b ! i) then Val 1 else Val (- 1))"
  by (simp add: where_gt_def)

lemma nth_where_isna:
  "i < length a \<Longrightarrow> i < length b \<Longrightarrow>
   where_isna a b ! i = (if isna (a ! i) then Val 0 else b ! i)"
  by (simp add: where_isna_def)

lemma rolling_mean_Inr:
  "rolling_mean w xs = Inr c \<longleftrightarrow> 0 \<le> w \<and> c = map (window_mean (nat w) xs) [0..<length xs]"
  by (auto simp: rolling_mean_def)

lemma rolling_mean_Inl: "rolling_mean w xs = Inl e \<longleftrightarrow> w < 0 \<and> e = ValueError"
  by (auto simp: rolling_mean_def)

lemma calculate_sma_None:
  assumes "calculate_sma dfi fw sw = (None, out)"
  defines "fast \<equiv> map (window_mean (nat fw) (DlyClose dfi)) [0..<length (DlyClose dfi)]"
  defines "slow \<equiv> map (window_mean (nat sw) (DlyClose dfi)) [0..<length (DlyClose dfi)]"
  shows "0 \<le> fw \<and> 0 \<le> sw \<and> Ticker out = Ticker dfi \<and> DlyClose out = DlyClose dfi \<and>
         cols out = (cols dfi)(''FastMA'' \<mapsto> fast, ''SlowMA'' \<mapsto> slow,
            ''Signal'' \<mapsto> where_isna slow (where_gt fast slow),
            ''Position'' \<mapsto> shift (where_isna slow (where_gt fast slow)))"
  using assms(1) unfolding fast_def slow_def
  by (auto simp: calculate_sma_def Let_def set_col_def rolling_mean_Inr split: sum.splits)

lemma calculate_sma_total:
  "0 \<le> fw \<Longrightarrow> 0 \<le> sw \<Longrightarrow> fst (calculate_sma dfi fw sw) = None"
  by (simp add: calculate_sma_def Let_def set_col_def rolling_mean_def)


lemma ewm_mean_Inr:
  "ewm_mean w xs = Inr c \<Longrightarrow> 1 \<le> w \<and> length c = length xs \<and> (\<forall>i<length c. \<exists>v. c ! i = Val v)"
proof -
  assume a: "ewm_mean w xs = Inr c"
  have len: "length (ewm_from al y ys) = length ys" for al y ys
    by (induction ys arbitrary: y) simp_all
  from a have w: "1 \<le> w" by (auto simp: ewm_mean_def split: if_splits)
  show ?thesis
  proof (cases xs)
    case Nil
    with a w show ?thesis by (auto simp: ewm_mean_def)
  next
    case (Cons x rest)
    with a w have c: "c = map Val (x # ewm_from (2 / (real_of_int w + 1)) x rest)"
      by (auto simp: ewm_mean_def)
    show ?thesis using w Cons unfolding c by (simp add: len del: list.map)
  qed
qed

lemma ewm_mean_same_head:
  "ewm_mean w xs = Inr c \<Longrightarrow> ewm_mean w' xs = Inr c' \<Longrightarrow> xs \<noteq> [] \<Longrightarrow> c ! 0 = c' ! 0"
  by (cases xs) (auto simp: ewm_mean_def split: if_splits)

lemma ema_strategy_Inr:
  assumes "ema_strategy meta fw sw = Inr out"
  shows "\<exists>fast slow md. ewm_mean fw (DlyClose meta) = Inr fast \<and>
           ewm_mean sw (DlyClose meta) = Inr slow \<and>
           cols meta ''MarketDaily'' = Some md \<and>
           Ticker out = Ticker meta \<and> DlyClose out = DlyClose meta \<and>
           cols out = (cols meta)(''FastEMA'' \<mapsto> fast, ''SlowEMA'' \<mapsto> slow,
              ''Signal'' \<mapsto> where_isna slow (where_gt fast slow),
              ''Position'' \<mapsto> shift (where_isna slow (where_gt fast slow)),
              ''StratRet'' \<mapsto> mul_col (shift (where_isna slow (where_gt fast slow))) md,
              ''Strategy'' \<mapsto> minus_one (cumprod (one_plus
                  (mul_col (shift (where_isna slow (where_gt fast slow))) md))))"
  using assms
  by (auto simp: ema_strategy_def Let_def set_col_def split: sum.splits option.splits)

lemma signal_values:
  assumes "length fast = n" "length slow = n" "i < n"
  shows "where_isna slow (where_gt fast slow) ! i =
           (if isna (slow ! i) then Val 0
            else if fgt (fast ! i) (slow ! i) then Val 1 else Val (- 1))"
  using assms by (simp add: nth_where_isna nth_where_gt length_where_gt)

lemma fgt_irrefl: "\<not> fgt x x"
  by (cases x) simp_all

lemma where_isna_noop:
  assumes "length slow = length s" "\<forall>i<length slow. \<not> isna (slow ! i)"
  shows "where_isna slow s = s"
  using assms by (intro nth_equalityI) (simp_all add: length_where_isna nth_where_isna)

lemmas ex_eval = calculate_sma_def ema_strategy_def Let_def rolling_mean_def ewm_mean_def
  window_mean_def set_col_def where_gt_def where_isna_def isna_def shift_def mul_col_def
  one_plus_def minus_one_def cumprod_def fsub_def upt_rec ex_prices_def ex_meta_def

subsection \<open>Row selection and grouped operations\<close>


lemma compress_Nil [simp]: "compress [] xs = []" "compress m [] = []"
  by (simp_all add: compress_def)

lemma compress_Cons [simp]:
  "compress (b # m) (x # xs) = (if b then x # compress m xs else compress m xs)"
  by (simp add: compress_def)

lemma compress_append:
  "length m1 = length x1 \<Longrightarrow> compress (m1 @ m2) (x1 @ x2) = compress m1 x1 @ compress m2 x2"
  by (simp add: compress_def)

lemma compress_map: "compress m (map f xs) = map f (compress m xs)"
proof (induction m arbitrary: xs)
  case Nil
  show ?case by simp
next
  case (Cons b m)
  show ?case by (cases xs) (simp_all add: Cons.IH)
qed

lemma compress_zip:
  "length xs = length ys \<Longrightarrow> compress m (zip xs ys) = zip (compress m xs) (compress m ys)"
proof (induction m arbitrary: xs ys)
  case Nil
  show ?case by simp
next
  case (Cons b m)
  show ?case
  proof (cases xs)
    case Nil
    with Cons.prems show ?thesis by simp
  next
    case (Cons x xs')
    with Cons.prems obtain y ys' where "ys = y # ys'" by (cases ys) auto
    with Cons Cons.prems Cons.IH [of xs' ys'] show ?thesis by simp
  qed
qed

lemma length_compress:
  "length xs = length ys \<Longrightarrow> length (compress m xs) = length (compress m ys)"
proof (induction m arbitrary: xs ys)
  case Nil
  show ?case by simp
next
  case (Cons b m)
  show ?case
  proof (cases xs)
    case Nil
    with Cons.prems show ?thesis by simp
  next
    case (Cons x xs')
    with Cons.prems obtain y ys' where "ys = y # ys'" by (cases ys) auto
    with Cons Cons.prems Cons.IH [of xs' ys'] show ?thesis by simp
  qed
qed

lemma compress_replicate_True: "length xs = n \<Longrightarrow> compress (replicate n True) xs = xs"
  by (induction xs arbitrary: n) auto

lemma compress_replicate_False: "compress (replicate n False) xs = []"
proof (induction n arbitrary: xs)
  case 0
  show ?case by simp
next
  case (Suc n)
  show ?case by (cases xs) (simp_all add: Suc.IH)
qed

lemma compress_key_mask_self: "compress (key_mask k ts) ts = filter (\<lambda>t. t = k) ts"
  by (induction ts) (simp_all add: key_mask_def)

lemma key_mask_simps [simp]:
  "key_mask t [] = []" "key_mask t (k # ks) = (k = t) # key_mask t ks"
  "length (key_mask t ks) = length ks"
  by (simp_all add: key_mask_def)

lemma key_mask_append: "key_mask t (xs @ ys) = key_mask t xs @ key_mask t ys"
  by (simp add: key_mask_def)

lemma pct_of_compress:
  "length xs = length ps \<Longrightarrow> compress m (pct_of xs ps) = pct_of (compress m xs) (compress m ps)"
  by (simp add: pct_of_def compress_map compress_zip)

lemma mul_col_compress:
  "length xs = length ys \<Longrightarrow> compress m (mul_col xs ys) = mul_col (compress m xs) (compress m ys)"
  by (simp add: mul_col_def compress_map compress_zip)

lemma one_plus_compress: "compress m (one_plus xs) = one_plus (compress m xs)"
  by (simp add: one_plus_def compress_map)

text \<open>The grouped kernels, seen through the rows of one key.\<close>

lemma grp_cumprod_from_key:
  "length ks = length xs \<Longrightarrow>
   compress (key_mask t ks) (grp_cumprod_from accum ks xs) =
     cumprod_from (case accum t of None \<Rightarrow> Val 1 | Some a \<Rightarrow> a) (compress (key_mask t ks) xs)"
proof (induction accum ks xs rule: grp_cumprod_from.induct)
  case (1 accum k ks x xs)
  then show ?case by (auto simp: Let_def fun_upd_def)
qed simp_all

lemma grp_cumprod_key:
  "length ks = length xs \<Longrightarrow>
   compress (key_mask t ks) (grp_cumprod ks xs) = cumprod (compress (key_mask t ks) xs)"
  by (simp add: grp_cumprod_def cumprod_def grp_cumprod_from_key)

lemma shift_from_Cons: "shift_from p (x # xs) = p # shift_from x xs"
  by (cases xs) (simp_all add: shift_from_def)

lemma grp_shift_key:
  "length ks = length xs \<Longrightarrow>
   compress (key_mask t ks) (grp_shift ks xs last_seen) =
     shift_from (case last_seen t of None \<Rightarrow> NaN | Some p \<Rightarrow> p) (compress (key_mask t ks) xs)"
proof (induction ks xs last_seen rule: grp_shift.induct)
  case (1 k ks x xs last_seen)
  then show ?case by (auto simp: shift_from_Cons fun_upd_def)
qed (simp_all add: shift_from_def)

lemma length_grp_shift: "length (grp_shift ks xs last_seen) = min (length ks) (length xs)"
  by (induction ks xs last_seen rule: grp_shift.induct) (simp_all add: fun_upd_def)

lemma length_grp_cumprod_from: "length (grp_cumprod_from accum ks xs) = min (length ks) (length xs)"
  by (induction accum ks xs rule: grp_cumprod_from.induct) (simp_all add: Let_def fun_upd_def)

lemma grp_pct_change_key:
  "length ks = length xs \<Longrightarrow>
   compress (key_mask t ks) (grp_pct_change ks xs) = pct_change (compress (key_mask t ks) xs)"
  by (simp add: grp_pct_change_def pct_change_def pct_of_compress length_grp_shift
      grp_shift_key shift_def shift_from_def compress_map)

subsection \<open>The panel after the group-wise application\<close>


lemma sma_groups_ok:
  "0 \<le> fw \<Longrightarrow> 0 \<le> sw \<Longrightarrow>
   sma_groups gs fw sw = Inr (map (\<lambda>g. sma_out (snd g) fw sw) gs)"
proof (induction gs)
  case Nil
  show ?case by simp
next
  case (Cons g gs)
  obtain name grp where g: "g = (name, grp)" by (cases g)
  obtain e out where c: "calculate_sma grp fw sw = (e, out)" by (cases "calculate_sma grp fw sw")
  have "e = None" using calculate_sma_total [OF Cons.prems, of grp] c by simp
  then show ?case using Cons g c by (simp add: sma_out_def)
qed

lemma sma_groups_windows:
  "sma_groups gs fw sw = Inr rs \<Longrightarrow> gs \<noteq> [] \<Longrightarrow> 0 \<le> fw \<and> 0 \<le> sw"
proof (cases gs)
  case Nil
  then show "gs \<noteq> [] \<Longrightarrow> ?thesis" by simp
next
  case (Cons g gs')
  assume a: "sma_groups gs fw sw = Inr rs"
  obtain name grp where g: "g = (name, grp)" by (cases g)
  obtain e out where c: "calculate_sma grp fw sw = (e, out)" by (cases "calculate_sma grp fw sw")
  have "e = None" using a Cons g c by (cases e) simp_all
  with c have "calculate_sma grp fw sw = (None, out)" by simp
  from calculate_sma_None [OF this] show ?thesis by simp
qed

lemma groupby_Nil: "groupby df = [] \<longleftrightarrow> Ticker df = []"
  by (simp add: groupby_def flip: set_empty)

lemma panel_sma_Inr:
  assumes "panel_sma df fw sw = Inr P"
  shows "Ticker df \<noteq> [] \<and> 0 \<le> fw \<and> 0 \<le> sw \<and>
         pd_concat (map (\<lambda>k. sma_out (key_rows k df) fw sw) (sort (remdups (Ticker df)))) = Inr P"
proof -
  from assms obtain rs where rs: "sma_groups (groupby df) fw sw = Inr rs" and p: "pd_concat rs = Inr P"
    by (auto simp: panel_sma_def split: sum.splits)
  from p have "rs \<noteq> []" by (auto simp: pd_concat_def)
  with rs have ne: "groupby df \<noteq> []" by auto
  from sma_groups_windows [OF rs ne] have w: "0 \<le> fw" "0 \<le> sw" by simp_all
  from sma_groups_ok [OF w, of "groupby df"] rs
  have "rs = map (\<lambda>k. sma_out (key_rows k df) fw sw) (sort (remdups (Ticker df)))"
    by (simp add: groupby_def comp_def)
  with p ne w show ?thesis by (simp add: groupby_Nil)
qed

lemma panel_sma_ok:
  assumes "Ticker df \<noteq> []" "0 \<le> fw" "0 \<le> sw"
  shows "panel_sma df fw sw =
     Inr \<lparr>Ticker = concat (map (\<lambda>k. Ticker (sma_out (key_rows k df) fw sw)) (sort (remdups (Ticker df)))),
          DlyClose = concat (map (\<lambda>k. DlyClose (sma_out (key_rows k df) fw sw)) (sort (remdups (Ticker df)))),
          cols = concat_col (map (\<lambda>k. sma_out (key_rows k df) fw sw) (sort (remdups (Ticker df))))\<rparr>"
proof -
  have "sort (remdups (Ticker df)) \<noteq> []" using assms(1) by (simp flip: set_empty)
  then show ?thesis
    using sma_groups_ok [OF assms(2,3), of "groupby df"]
    by (simp add: panel_sma_def groupby_def comp_def pd_concat_def)
qed

text \<open>One group after \<^verbatim>\<open>calculate_sma\<close>.\<close>

lemma sma_out_fields:
  assumes "0 \<le> fw" "0 \<le> sw"
  shows "Ticker (sma_out g fw sw) = Ticker g" "DlyClose (sma_out g fw sw) = DlyClose g"
    "cols (sma_out g fw sw) =
       (cols g)(''FastMA'' \<mapsto> map (window_mean (nat fw) (DlyClose g)) [0..<length (DlyClose g)],
         ''SlowMA'' \<mapsto> map (window_mean (nat sw) (DlyClose g)) [0..<length (DlyClose g)],
         ''Signal'' \<mapsto> where_isna (map (window_mean (nat sw) (DlyClose g)) [0..<length (DlyClose g)])
            (where_gt (map (window_mean (nat fw) (DlyClose g)) [0..<length (DlyClose g)])
               (map (window_mean (nat sw) (DlyClose g)) [0..<length (DlyClose g)])),
         ''Position'' \<mapsto> shift (where_isna (map (window_mean (nat sw) (DlyClose g)) [0..<length (DlyClose g)])
            (where_gt (map (window_mean (nat fw) (DlyClose g)) [0..<length (DlyClose g)])
               (map (window_mean (nat sw) (DlyClose g)) [0..<length (DlyClose g)]))))"
proof -
  obtain e out where c: "calculate_sma g fw sw = (e, out)" by (cases "calculate_sma g fw sw")
  have "e = None" using calculate_sma_total [OF assms, of g] c by simp
  with c have c': "calculate_sma g fw sw = (None, out)" by simp
  have o: "sma_out g fw sw = out" by (simp add: sma_out_def c)
  from calculate_sma_None [OF c']
  show "Ticker (sma_out g fw sw) = Ticker g" "DlyClose (sma_out g fw sw) = DlyClose g"
    "cols (sma_out g fw sw) =
       (cols g)(''FastMA'' \<mapsto> map (window_mean (nat fw) (DlyClose g)) [0..<length (DlyClose g)],
         ''SlowMA'' \<mapsto> map (window_mean (nat sw) (DlyClose g)) [0..<length (DlyClose g)],
         ''Signal'' \<mapsto> where_isna (map (window_mean (nat sw) (DlyClose g)) [0..<length (DlyClose g)])
            (where_gt (map (window_mean (nat fw) (DlyClose g)) [0..<length (DlyClose g)])
               (map (window_mean (nat sw) (DlyClose g)) [0..<length (DlyClose g)])),
         ''Position'' \<mapsto> shift (where_isna (map (window_mean (nat sw) (DlyClose g)) [0..<length (DlyClose g)])
            (where_gt (map (window_mean (nat fw) (DlyClose g)) [0..<length (DlyClose g)])
               (map (window_mean (nat sw) (DlyClose g)) [0..<length (DlyClose g)]))))"
    unfolding o by simp_all
qed

lemma wf_sma_out:
  assumes "wf_frame g" "0 \<le> fw" "0 \<le> sw"
  shows "wf_frame (sma_out g fw sw)"
  using assms(1) unfolding wf_frame_def sma_out_fields [OF assms(2,3)]
  by (auto simp: length_shift length_where_isna length_where_gt)

lemma wf_get_rows:
  assumes "wf_frame f"
  shows "wf_frame (get_rows m f)"
  using assms unfolding wf_frame_def get_rows_def
  by (auto intro: length_compress)

lemma wf_key_rows: "wf_frame df \<Longrightarrow> wf_frame (key_rows k df)"
  by (simp add: key_rows_def wf_get_rows)

lemma Ticker_key_rows: "Ticker (key_rows k df) = filter (\<lambda>t. t = k) (Ticker df)"
  by (simp add: key_rows_def get_rows_def compress_key_mask_self)

lemma filter_eq_replicate: "filter (\<lambda>t. t = k) ts = replicate (length (filter (\<lambda>t. t = k) ts)) k"
  by (induction ts) simp_all

lemma length_groups:
  "length (concat (map (\<lambda>k. filter (\<lambda>t. t = k) ts) (sort (remdups ts)))) = length ts"
proof -
  have "length (concat (map (\<lambda>k. filter (\<lambda>t. t = k) ts) (sort (remdups ts)))) =
        sum_list (map (\<lambda>k. count_list ts k) (sort (remdups ts)))"
    by (simp add: length_concat comp_def count_list_eq_length_filter eq_commute)
  also have "\<dots> = sum (count_list ts) (set (sort (remdups ts)))"
    by (rule sum_list_distinct_conv_sum_set) simp
  also have "\<dots> = length ts"
    by (simp add: sum_count_set)
  finally show ?thesis .
qed


lemma length_concat_same:
  "\<forall>f\<in>set fs. length (g f) = length (h f) \<Longrightarrow>
   length (concat (map g fs)) = length (concat (map h fs))"
  by (induction fs) simp_all

lemma wf_concat:
  assumes "\<forall>f\<in>set fs. wf_frame f"
  shows "wf_frame \<lparr>Ticker = concat (map Ticker fs), DlyClose = concat (map DlyClose fs),
                   cols = concat_col fs\<rparr>"
proof -
  have d: "length (concat (map DlyClose fs)) = length (concat (map Ticker fs))"
    using assms by (intro length_concat_same) (simp add: wf_frame_def)
  have c: "length c = length (concat (map Ticker fs))" if "concat_col fs n = Some c" for n c
  proof -
    from that have c: "c = concat (map (\<lambda>f. case cols f n of
                                     None \<Rightarrow> replicate (nrows f) NaN
                                   | Some c \<Rightarrow> c) fs)"
      by (auto simp: concat_col_def split: if_splits)
    show ?thesis unfolding c using assms
      by (intro length_concat_same) (auto simp: wf_frame_def nrows_def split: option.splits)
  qed
  show ?thesis using d c by (simp add: wf_frame_def)
qed

lemma length_grp_pct_change:
  "length (grp_pct_change ks xs) = min (length ks) (length xs)"
  by (simp add: grp_pct_change_def pct_of_def length_grp_shift)

lemma length_grp_cumprod: "length (grp_cumprod ks xs) = min (length ks) (length xs)"
  by (simp add: grp_cumprod_def length_grp_cumprod_from)

lemma panel_returns_Inr:
  "panel_returns df = Inr F \<longleftrightarrow>
     (\<exists>position. cols df ''Position'' = Some position \<and>
        F = df\<lparr>cols := (cols df)(''MarketDaily'' \<mapsto> grp_pct_change (Ticker df) (DlyClose df),
               ''StrategyDaily'' \<mapsto> mul_col position (grp_pct_change (Ticker df) (DlyClose df)),
               ''Market'' \<mapsto> grp_cumprod (Ticker df) (one_plus (grp_pct_change (Ticker df) (DlyClose df))),
               ''Strategy'' \<mapsto> grp_cumprod (Ticker df)
                  (one_plus (mul_col position (grp_pct_change (Ticker df) (DlyClose df)))))\<rparr>)"
  by (auto simp: panel_returns_def Let_def set_col_def split: option.splits)

lemma wf_panel_returns:
  assumes "wf_frame df" "panel_returns df = Inr F"
  shows "wf_frame F \<and> Ticker F = Ticker df \<and> DlyClose F = DlyClose df"
proof -
  from assms(2) obtain position where p: "cols df ''Position'' = Some position" and
    F: "F = df\<lparr>cols := (cols df)(''MarketDaily'' \<mapsto> grp_pct_change (Ticker df) (DlyClose df),
               ''StrategyDaily'' \<mapsto> mul_col position (grp_pct_change (Ticker df) (DlyClose df)),
               ''Market'' \<mapsto> grp_cumprod (Ticker df) (one_plus (grp_pct_change (Ticker df) (DlyClose df))),
               ''Strategy'' \<mapsto> grp_cumprod (Ticker df)
                  (one_plus (mul_col position (grp_pct_change (Ticker df) (DlyClose df)))))\<rparr>"
    unfolding panel_returns_Inr by blast
  have lp: "length position = length (Ticker df)" and ld: "length (DlyClose df) = length (Ticker df)"
    using assms(1) p by (simp_all add: wf_frame_def)
  show ?thesis using assms(1) unfolding F wf_frame_def
    by (auto simp: length_grp_pct_change length_grp_cumprod mul_col_def one_plus_def lp ld)
qed

lemma concat_col_Position:
  assumes "ks \<noteq> []" "0 \<le> fw" "0 \<le> sw"
  shows "concat_col (map (\<lambda>k. sma_out (G k) fw sw) ks) ''Position'' \<noteq> None"
proof -
  obtain k ks' where "ks = k # ks'" using assms(1) by (cases ks) auto
  then show ?thesis by (simp add: concat_col_def sma_out_fields [OF assms(2,3)])
qed

lemma panel_strategy_facts:
  assumes wf: "wf_frame df" and ne: "Ticker df \<noteq> []" and w: "0 \<le> fw" "0 \<le> sw"
  shows "\<exists>P F. panel_sma df fw sw = Inr P \<and> nrows P = nrows df \<and> wf_frame P \<and>
           panel_strategy df fw sw = Inr F \<and> nrows F = nrows df \<and> wf_frame F \<and>
           set (Ticker F) = set (Ticker df) \<and>
           (\<forall>n\<in>{''FastMA'', ''SlowMA'', ''Signal'', ''Position'',
                 ''MarketDaily'', ''StrategyDaily'', ''Market'', ''Strategy''}.
              \<exists>c. cols F n = Some c \<and> length c = nrows df)"
proof -
  define ks where "ks = sort (remdups (Ticker df))"
  define fs where "fs = map (\<lambda>k. sma_out (key_rows k df) fw sw) ks"
  define P where "P = \<lparr>Ticker = concat (map Ticker fs), DlyClose = concat (map DlyClose fs),
                   cols = concat_col fs\<rparr>"
  have ksne: "ks \<noteq> []" using ne by (simp add: ks_def flip: set_empty)
  have P: "panel_sma df fw sw = Inr P"
    using panel_sma_ok [OF ne w] by (simp add: P_def fs_def ks_def comp_def)
  have wfs: "\<forall>f\<in>set fs. wf_frame f"
    using wf w by (auto simp: fs_def intro!: wf_sma_out wf_key_rows)
  have wfP: "wf_frame P" unfolding P_def using wfs by (rule wf_concat)
  have TP: "Ticker P = concat (map (\<lambda>k. filter (\<lambda>t. t = k) (Ticker df)) ks)"
    by (simp add: P_def fs_def comp_def sma_out_fields(1) [OF w] Ticker_key_rows)
  then have nP: "nrows P = nrows df"
    by (simp add: nrows_def ks_def length_groups)
  have sP: "set (Ticker P) = set (Ticker df)"
    unfolding TP by (auto simp: ks_def)
  have "cols P ''Position'' \<noteq> None"
    unfolding P_def fs_def using concat_col_Position [OF ksne w] by simp
  then obtain position where pos: "cols P ''Position'' = Some position" by blast
  define F where "F = P\<lparr>cols := (cols P)(''MarketDaily'' \<mapsto> grp_pct_change (Ticker P) (DlyClose P),
               ''StrategyDaily'' \<mapsto> mul_col position (grp_pct_change (Ticker P) (DlyClose P)),
               ''Market'' \<mapsto> grp_cumprod (Ticker P) (one_plus (grp_pct_change (Ticker P) (DlyClose P))),
               ''Strategy'' \<mapsto> grp_cumprod (Ticker P)
                  (one_plus (mul_col position (grp_pct_change (Ticker P) (DlyClose P)))))\<rparr>"
  have F: "panel_returns P = Inr F"
    unfolding panel_returns_Inr using pos F_def by blast
  have wfF: "wf_frame F" and tF: "Ticker F = Ticker P"
    using wf_panel_returns [OF wfP F] by simp_all
  have nF: "nrows F = nrows df" using nP tF by (simp add: nrows_def)
  have S: "panel_strategy df fw sw = Inr F" by (simp add: panel_strategy_def P F)
  have four: "\<forall>n\<in>{''FastMA'', ''SlowMA'', ''Signal'', ''Position''}. cols P n \<noteq> None"
  proof -
    obtain k ks' where "ks = k # ks'" using ksne by (cases ks) auto
    then show ?thesis by (simp add: P_def fs_def concat_col_def sma_out_fields [OF w])
  qed
  have "\<forall>n\<in>{''FastMA'', ''SlowMA'', ''Signal'', ''Position'',
                 ''MarketDaily'', ''StrategyDaily'', ''Market'', ''Strategy''}. cols F n \<noteq> None"
    using four by (simp add: F_def)
  then have eight: "\<forall>n\<in>{''FastMA'', ''SlowMA'', ''Signal'', ''Position'',
                 ''MarketDaily'', ''StrategyDaily'', ''Market'', ''Strategy''}.
              \<exists>c. cols F n = Some c \<and> length c = nrows df"
    using wfF nF unfolding wf_frame_def nrows_def by fastforce
  have sF: "set (Ticker F) = set (Ticker df)" using sP tF by simp
  have "panel_sma df fw sw = Inr P \<and> nrows P = nrows df \<and> wf_frame P \<and>
           panel_strategy df fw sw = Inr F \<and> nrows F = nrows df \<and> wf_frame F \<and>
           set (Ticker F) = set (Ticker df) \<and>
           (\<forall>n\<in>{''FastMA'', ''SlowMA'', ''Signal'', ''Position'',
                 ''MarketDaily'', ''StrategyDaily'', ''Market'', ''Strategy''}.
              \<exists>c. cols F n = Some c \<and> length c = nrows df)"
    by (intro conjI) (fact P nP wfP S nF wfF sF eight)+
  then show ?thesis by (intro exI)
qed

subsection \<open>One ticker of the panel\<close>


lemma key_mask_replicate: "key_mask t (replicate n k) = replicate n (k = t)"
  by (simp add: key_mask_def)

lemma compress_concat_other:
  assumes "t \<notin> set ks" "\<forall>k\<in>set ks. T k = replicate (length (X k)) k"
  shows "compress (key_mask t (concat (map T ks))) (concat (map X ks)) = []"
  using assms
proof (induction ks)
  case Nil
  show ?case by simp
next
  case (Cons k ks)
  from Cons.prems have k: "T k = replicate (length (X k)) k" and kt: "k \<noteq> t" by auto
  have "compress (key_mask t (T k)) (X k) = []"
    using kt by (subst k) (simp add: key_mask_replicate compress_replicate_False)
  moreover have "compress (key_mask t (concat (map T ks))) (concat (map X ks)) = []"
    using Cons.prems by (intro Cons.IH) simp_all
  moreover have "length (key_mask t (T k)) = length (X k)"
    by (subst k) simp
  ultimately show ?case by (simp add: key_mask_append compress_append)
qed

lemma compress_concat_key:
  assumes "distinct ks" "t \<in> set ks" "\<forall>k\<in>set ks. T k = replicate (length (X k)) k"
  shows "compress (key_mask t (concat (map T ks))) (concat (map X ks)) = X t"
  using assms
proof (induction ks)
  case Nil
  then show ?case by simp
next
  case (Cons k ks)
  from Cons.prems have k: "T k = replicate (length (X k)) k" by auto
  have len: "length (key_mask t (T k)) = length (X k)" by (subst k) simp
  show ?case
  proof (cases "k = t")
    case True
    with Cons.prems have "t \<notin> set ks" by simp
    then have "compress (key_mask t (concat (map T ks))) (concat (map X ks)) = []"
      using Cons.prems by (intro compress_concat_other) simp_all
    moreover have "compress (key_mask t (T k)) (X k) = X k"
      using True by (subst k) (simp add: key_mask_replicate compress_replicate_True)
    ultimately show ?thesis using len True by (simp add: key_mask_append compress_append)
  next
    case False
    with Cons.prems have "t \<in> set ks" by auto
    then have "compress (key_mask t (concat (map T ks))) (concat (map X ks)) = X t"
      using Cons.prems by (intro Cons.IH) simp_all
    moreover have "compress (key_mask t (T k)) (X k) = []"
      using False by (subst k) (simp add: key_mask_replicate compress_replicate_False)
    ultimately show ?thesis using len by (simp add: key_mask_append compress_append)
  qed
qed

text \<open>A frame with one key: the grouped operations are the plain ones.\<close>

lemma grp_pct_change_one_key:
  "length xs = n \<Longrightarrow> grp_pct_change (replicate n t) xs = pct_change xs"
proof -
  assume n: "length xs = n"
  have "compress (key_mask t (replicate n t)) (grp_pct_change (replicate n t) xs) =
        pct_change (compress (key_mask t (replicate n t)) xs)"
    using n by (intro grp_pct_change_key) simp
  then show ?thesis using n
    by (simp add: key_mask_replicate compress_replicate_True length_grp_pct_change)
qed

lemma grp_cumprod_one_key:
  "length xs = n \<Longrightarrow> grp_cumprod (replicate n t) xs = cumprod xs"
proof -
  assume n: "length xs = n"
  have "compress (key_mask t (replicate n t)) (grp_cumprod (replicate n t) xs) =
        cumprod (compress (key_mask t (replicate n t)) xs)"
    using n by (intro grp_cumprod_key) simp
  then show ?thesis using n
    by (simp add: key_mask_replicate compress_replicate_True length_grp_cumprod)
qed

lemma key_rows_fields:
  "Ticker (key_rows t df) = compress (key_mask t (Ticker df)) (Ticker df)"
  "DlyClose (key_rows t df) = compress (key_mask t (Ticker df)) (DlyClose df)"
  "cols (key_rows t df) n = map_option (compress (key_mask t (Ticker df))) (cols df n)"
  by (simp_all add: key_rows_def get_rows_def)

lemma key_rows_set_col:
  "key_rows t (set_col f n c) = set_col (key_rows t f) n (compress (key_mask t (Ticker f)) c)"
  by (auto simp: key_rows_def get_rows_def set_col_def fun_eq_iff)

lemma key_rows_idem:
  assumes "wf_frame df"
  shows "key_rows t (key_rows t df) = key_rows t df"
proof -
  define n where "n = length (filter (\<lambda>x. x = t) (Ticker df))"
  have T: "Ticker (key_rows t df) = replicate n t"
    unfolding Ticker_key_rows n_def by (rule filter_eq_replicate)
  have lt: "length (compress (key_mask t (Ticker df)) (Ticker df)) = n"
    by (simp add: compress_key_mask_self n_def)
  have ld: "length (compress (key_mask t (Ticker df)) (DlyClose df)) = n"
    using assms lt length_compress [of "DlyClose df" "Ticker df"] by (simp add: wf_frame_def)
  have lc: "length (compress (key_mask t (Ticker df)) c) = n" if "cols df m = Some c" for m c
    using assms lt that length_compress [of c "Ticker df"] by (simp add: wf_frame_def)
  have 1: "Ticker (key_rows t (key_rows t df)) = Ticker (key_rows t df)"
    by (simp add: key_rows_fields(1) [of t "key_rows t df"] T key_mask_replicate
        compress_replicate_True)
  have 2: "DlyClose (key_rows t (key_rows t df)) = DlyClose (key_rows t df)"
    by (simp add: key_rows_fields(2) [of t "key_rows t df"] T key_mask_replicate
        compress_replicate_True ld key_rows_fields(2) [of t df])
  have 3: "cols (key_rows t (key_rows t df)) m = cols (key_rows t df) m" for m
    by (cases "cols df m")
      (simp_all add: key_rows_fields(3) [of t "key_rows t df"] T key_mask_replicate
        compress_replicate_True lc key_rows_fields(3) [of t df])
  from 1 2 3 show ?thesis by (intro frame.equality) (simp_all add: fun_eq_iff)
qed


lemma panel_returns_set_col:
  "panel_returns df = Inr F \<longleftrightarrow>
     (\<exists>position. cols df ''Position'' = Some position \<and>
        F = set_col (set_col (set_col (set_col df
              ''MarketDaily'' (grp_pct_change (Ticker df) (DlyClose df)))
              ''StrategyDaily'' (mul_col position (grp_pct_change (Ticker df) (DlyClose df))))
              ''Market'' (grp_cumprod (Ticker df) (one_plus (grp_pct_change (Ticker df) (DlyClose df)))))
              ''Strategy'' (grp_cumprod (Ticker df)
                  (one_plus (mul_col position (grp_pct_change (Ticker df) (DlyClose df))))))"
  by (auto simp: panel_returns_def Let_def set_col_def split: option.splits)

lemma Ticker_set_col [simp]: "Ticker (set_col f n c) = Ticker f"
  and DlyClose_set_col [simp]: "DlyClose (set_col f n c) = DlyClose f"
  by (simp_all add: set_col_def)

lemma key_rows_panel_returns:
  assumes wf: "wf_frame P" and F: "panel_returns P = Inr F"
  shows "panel_returns (key_rows t P) = Inr (key_rows t F)"
proof -
  define m where "m = key_mask t (Ticker P)"
  define n where "n = length (filter (\<lambda>x. x = t) (Ticker P))"
  define md where "md = grp_pct_change (Ticker P) (DlyClose P)"
  from F obtain position where pos: "cols P ''Position'' = Some position" and
    Fdef: "F = set_col (set_col (set_col (set_col P
              ''MarketDaily'' md)
              ''StrategyDaily'' (mul_col position md))
              ''Market'' (grp_cumprod (Ticker P) (one_plus md)))
              ''Strategy'' (grp_cumprod (Ticker P) (one_plus (mul_col position md)))"
    unfolding panel_returns_set_col md_def by blast
  have ld: "length (DlyClose P) = length (Ticker P)" and lp: "length position = length (Ticker P)"
    using wf pos by (simp_all add: wf_frame_def)
  have lmd: "length md = length (Ticker P)"
    by (simp add: md_def length_grp_pct_change ld)
  have T: "Ticker (key_rows t P) = replicate n t"
    unfolding Ticker_key_rows n_def by (rule filter_eq_replicate)
  have lt: "length (compress m (Ticker P)) = n"
    by (simp add: m_def compress_key_mask_self n_def)
  have lc: "length (compress m c) = n" if "length c = length (Ticker P)" for c :: "cell list"
    using lt that length_compress [of c "Ticker P" m] by simp
  have lcd: "length (compress m (DlyClose P)) = n"
    using lt ld length_compress [of "DlyClose P" "Ticker P" m] by simp
  have D: "DlyClose (key_rows t P) = compress m (DlyClose P)"
    by (simp add: key_rows_fields m_def)
  have posk: "cols (key_rows t P) ''Position'' = Some (compress m position)"
    by (simp add: key_rows_fields pos m_def)
  have md': "grp_pct_change (replicate n t) (compress m (DlyClose P)) = compress m md"
    using lcd ld by (simp add: grp_pct_change_one_key md_def m_def grp_pct_change_key)
  have sd': "mul_col (compress m position) (compress m md) = compress m (mul_col position md)"
    using lp lmd by (simp add: mul_col_compress)
  have lsd: "length (mul_col position md) = length (Ticker P)"
    using lp lmd by (simp add: mul_col_def)
  have c1: "grp_cumprod (replicate n t) (one_plus (compress m md)) =
            compress m (grp_cumprod (Ticker P) (one_plus md))"
  proof -
    have "length (one_plus (compress m md)) = n" using lc [OF lmd] by (simp add: one_plus_def)
    then have "grp_cumprod (replicate n t) (one_plus (compress m md)) = cumprod (one_plus (compress m md))"
      by (rule grp_cumprod_one_key)
    moreover have "compress m (grp_cumprod (Ticker P) (one_plus md)) = cumprod (compress m (one_plus md))"
      unfolding m_def using lmd by (intro grp_cumprod_key) (simp add: one_plus_def)
    ultimately show ?thesis by (simp add: one_plus_compress)
  qed
  have c2: "grp_cumprod (replicate n t) (one_plus (compress m (mul_col position md))) =
            compress m (grp_cumprod (Ticker P) (one_plus (mul_col position md)))"
  proof -
    have "length (one_plus (compress m (mul_col position md))) = n"
      using lc [OF lsd] by (simp add: one_plus_def)
    then have "grp_cumprod (replicate n t) (one_plus (compress m (mul_col position md))) =
               cumprod (one_plus (compress m (mul_col position md)))"
      by (rule grp_cumprod_one_key)
    moreover have "compress m (grp_cumprod (Ticker P) (one_plus (mul_col position md))) =
                   cumprod (compress m (one_plus (mul_col position md)))"
      unfolding m_def using lsd by (intro grp_cumprod_key) (simp add: one_plus_def)
    ultimately show ?thesis by (simp add: one_plus_compress)
  qed
  have K: "key_rows t F = set_col (set_col (set_col (set_col (key_rows t P)
              ''MarketDaily'' (compress m md))
              ''StrategyDaily'' (compress m (mul_col position md)))
              ''Market'' (compress m (grp_cumprod (Ticker P) (one_plus md))))
              ''Strategy'' (compress m (grp_cumprod (Ticker P) (one_plus (mul_col position md))))"
    unfolding Fdef by (simp add: key_rows_set_col m_def)
  show ?thesis
    unfolding panel_returns_set_col K
    apply (rule exI [of _ "compress m position"])
    using posk by (simp add: T D md' sd' c1 c2)
qed

lemma concat_col_single: "concat_col [f] = cols f"
  by (auto simp: concat_col_def fun_eq_iff)

lemma panel_sma_single:
  assumes wf: "wf_frame df" and t: "t \<in> set (Ticker df)" and w: "0 \<le> fw" "0 \<le> sw"
  shows "panel_sma (key_rows t df) fw sw = Inr (sma_out (key_rows t df) fw sw)"
proof -
  define n where "n = length (filter (\<lambda>x. x = t) (Ticker df))"
  have T: "Ticker (key_rows t df) = replicate n t"
    unfolding Ticker_key_rows n_def by (rule filter_eq_replicate)
  have "filter (\<lambda>x. x = t) (Ticker df) \<noteq> []" using t by (simp add: filter_empty_conv)
  then have n: "0 < n" by (simp add: n_def)
  then have ne: "Ticker (key_rows t df) \<noteq> []" by (simp add: T)
  have "remdups (replicate k t) = (if k = 0 then [] else [t])" for k
    by (induction k) auto
  then have ks: "sort (remdups (Ticker (key_rows t df))) = [t]"
    using n by (simp add: T)
  show ?thesis
    unfolding panel_sma_ok [OF ne w] ks
    by (intro arg_cong [where f = Inr] frame.equality)
      (simp_all add: key_rows_idem [OF wf] concat_col_single)
qed

lemma cols_sma_out_None:
  assumes "0 \<le> fw" "0 \<le> sw"
  shows "cols (sma_out (key_rows k df) fw sw) n = None \<longleftrightarrow>
         n \<notin> {''FastMA'', ''SlowMA'', ''Signal'', ''Position''} \<and> cols df n = None"
  by (simp add: sma_out_fields(3) [OF assms] key_rows_fields)

lemma key_rows_panel_sma:
  assumes wf: "wf_frame df" and t: "t \<in> set (Ticker df)" and P: "panel_sma df fw sw = Inr P"
  shows "key_rows t P = sma_out (key_rows t df) fw sw"
proof -
  from panel_sma_Inr [OF P] have ne: "Ticker df \<noteq> []" and w: "0 \<le> fw" "0 \<le> sw" by simp_all
  define ks where "ks = sort (remdups (Ticker df))"
  define R where "R = (\<lambda>k. sma_out (key_rows k df) fw sw)"
  have Pdef: "P = \<lparr>Ticker = concat (map (\<lambda>k. Ticker (R k)) ks),
                   DlyClose = concat (map (\<lambda>k. DlyClose (R k)) ks),
                   cols = concat_col (map R ks)\<rparr>"
    using P unfolding panel_sma_ok [OF ne w] by (simp add: ks_def R_def)
  have dist: "distinct ks" and tk: "t \<in> set ks" using t by (simp_all add: ks_def)
  have wfR: "wf_frame (R k)" for k
    unfolding R_def using wf w by (intro wf_sma_out wf_key_rows)
  have TR: "Ticker (R k) = replicate (length (Ticker (R k))) k" for k
  proof -
    have "Ticker (R k) = filter (\<lambda>x. x = k) (Ticker df)"
      by (simp add: R_def sma_out_fields(1) [OF w] Ticker_key_rows)
    then show ?thesis using filter_eq_replicate [of k "Ticker df"] by simp
  qed
  have sel: "compress (key_mask t (Ticker P)) (concat (map X ks)) = X t"
    if "\<And>k. length (X k) = length (Ticker (R k))" for X :: "string \<Rightarrow> 'a list"
  proof -
    have "compress (key_mask t (concat (map (\<lambda>k. Ticker (R k)) ks))) (concat (map X ks)) = X t"
      using dist tk
    proof (rule compress_concat_key)
      show "\<forall>k\<in>set ks. Ticker (R k) = replicate (length (X k)) k"
        using TR that by simp
    qed
    then show ?thesis by (simp add: Pdef)
  qed
  have 1: "Ticker (key_rows t P) = Ticker (R t)"
    unfolding key_rows_fields
    using sel [of "\<lambda>k. Ticker (R k)"] by (simp add: Pdef)
  have 2: "DlyClose (key_rows t P) = DlyClose (R t)"
    unfolding key_rows_fields
    using sel [of "\<lambda>k. DlyClose (R k)"] wfR by (simp add: Pdef wf_frame_def)
  have 3: "cols (key_rows t P) n = cols (R t) n" for n
  proof (cases "cols (R t) n")
    case None
    then have "cols (R k) n = None" for k
      using cols_sma_out_None [OF w] by (simp add: R_def)
    then have "concat_col (map R ks) n = None"
      by (simp add: concat_col_def list_all_iff)
    then show ?thesis using None by (simp add: key_rows_fields Pdef)
  next
    case (Some c)
    define X where "X = (\<lambda>k. case cols (R k) n of None \<Rightarrow> replicate (nrows (R k)) NaN | Some c \<Rightarrow> c)"
    have "\<not> list_all (\<lambda>f. cols f n = None) (map R ks)"
      using tk Some by (auto simp: list_all_iff)
    then have cc: "concat_col (map R ks) n = Some (concat (map X ks))"
      by (simp add: concat_col_def X_def comp_def)
    have lX: "length (X k) = length (Ticker (R k))" for k
      using wfR [of k] by (auto simp: X_def wf_frame_def nrows_def split: option.splits)
    have "compress (key_mask t (Ticker P)) (concat (map X ks)) = X t"
      using lX by (rule sel)
    moreover have "X t = c" using Some by (simp add: X_def)
    ultimately show ?thesis using Some cc by (simp add: key_rows_fields Pdef)
  qed
  from 1 2 3 show ?thesis
    unfolding R_def by (intro frame.equality) (simp_all add: fun_eq_iff)
qed

lemma key_rows_panel_strategy:
  assumes wf: "wf_frame df" and t: "t \<in> set (Ticker df)" and F: "panel_strategy df fw sw = Inr F"
  shows "panel_strategy (key_rows t df) fw sw = Inr (key_rows t F)"
proof -
  from F obtain P where P: "panel_sma df fw sw = Inr P" and R: "panel_returns P = Inr F"
    by (auto simp: panel_strategy_def split: sum.splits)
  from panel_sma_Inr [OF P] have ne: "Ticker df \<noteq> []" and w: "0 \<le> fw" "0 \<le> sw" by simp_all
  have wfP: "wf_frame P"
  proof -
    have "\<forall>f\<in>set (map (\<lambda>k. sma_out (key_rows k df) fw sw) (sort (remdups (Ticker df)))). wf_frame f"
      using wf w by (auto intro!: wf_sma_out wf_key_rows)
    from wf_concat [OF this] P show ?thesis
      unfolding panel_sma_ok [OF ne w] by (simp add: comp_def)
  qed
  have "panel_sma (key_rows t df) fw sw = Inr (key_rows t P)"
    using panel_sma_single [OF wf t w] key_rows_panel_sma [OF wf t P] by simp
  moreover have "panel_returns (key_rows t P) = Inr (key_rows t F)"
    using wfP R by (rule key_rows_panel_returns)
  ultimately show ?thesis by (simp add: panel_strategy_def)
qed


lemma length_pct_change: "length (pct_change xs) = length xs"
  by (simp add: pct_change_def pct_of_def length_shift)

lemma pct_change_first: "xs \<noteq> [] \<Longrightarrow> pct_change xs ! 0 = NaN"
  by (cases xs) (simp_all add: pct_change_def pct_of_def shift_def fsub_def)

lemma length_cumprod_from: "length (cumprod_from a xs) = length xs"
  by (induction xs arbitrary: a) simp_all

lemma length_cumprod: "length (cumprod xs) = length xs"
  by (simp add: cumprod_def length_cumprod_from)

lemma cumprod_first_NaN: "xs \<noteq> [] \<Longrightarrow> xs ! 0 = NaN \<Longrightarrow> cumprod xs ! 0 = NaN"
  by (cases xs) (simp_all add: cumprod_def isna_def)

lemma single_asset_columns:
  assumes wf: "wf_frame df" and t: "t \<in> set (Ticker df)" and F: "panel_strategy df fw sw = Inr F"
  shows "\<exists>signal. length signal = length (DlyClose (key_rows t df)) \<and>
           cols (sma_out (key_rows t df) fw sw) ''Position'' = Some (shift signal) \<and>
           cols (key_rows t F) ''Position'' = Some (shift signal) \<and>
           cols (key_rows t F) ''MarketDaily'' = Some (pct_change (DlyClose (key_rows t df))) \<and>
           cols (key_rows t F) ''StrategyDaily'' =
             Some (mul_col (shift signal) (pct_change (DlyClose (key_rows t df)))) \<and>
           cols (key_rows t F) ''Market'' =
             Some (cumprod (one_plus (pct_change (DlyClose (key_rows t df))))) \<and>
           cols (key_rows t F) ''Strategy'' =
             Some (cumprod (one_plus (mul_col (shift signal) (pct_change (DlyClose (key_rows t df))))))"
proof -
  define G where "G = key_rows t df"
  define n where "n = length (filter (\<lambda>x. x = t) (Ticker df))"
  from F obtain P where P: "panel_sma df fw sw = Inr P"
    by (auto simp: panel_strategy_def split: sum.splits)
  from panel_sma_Inr [OF P] have w: "0 \<le> fw" "0 \<le> sw" by simp_all
  define fast where "fast = map (window_mean (nat fw) (DlyClose G)) [0..<length (DlyClose G)]"
  define slow where "slow = map (window_mean (nat sw) (DlyClose G)) [0..<length (DlyClose G)]"
  define signal where "signal = where_isna slow (where_gt fast slow)"
  define R where "R = sma_out G fw sw"
  have ls: "length signal = length (DlyClose G)"
    by (simp add: signal_def fast_def slow_def length_where_isna length_where_gt)
  have posR: "cols R ''Position'' = Some (shift signal)"
    by (simp add: R_def sma_out_fields(3) [OF w] signal_def fast_def slow_def)
  have TG: "Ticker G = replicate n t"
    unfolding G_def Ticker_key_rows n_def by (rule filter_eq_replicate)
  have wfG: "wf_frame G" unfolding G_def using wf by (rule wf_key_rows)
  have lG: "length (DlyClose G) = n" using wfG TG by (simp add: wf_frame_def)
  have TR: "Ticker R = replicate n t" and DR: "DlyClose R = DlyClose G"
    by (simp_all add: R_def sma_out_fields(1,2) [OF w] TG)
  have S: "panel_strategy G fw sw = Inr (key_rows t F)"
    unfolding G_def using wf t F by (rule key_rows_panel_strategy)
  have "panel_sma G fw sw = Inr R"
    unfolding G_def R_def using wf t w by (rule panel_sma_single)
  with S have "panel_returns R = Inr (key_rows t F)" by (simp add: panel_strategy_def)
  then have K: "key_rows t F = set_col (set_col (set_col (set_col R
              ''MarketDaily'' (grp_pct_change (Ticker R) (DlyClose R)))
              ''StrategyDaily'' (mul_col (shift signal) (grp_pct_change (Ticker R) (DlyClose R))))
              ''Market'' (grp_cumprod (Ticker R) (one_plus (grp_pct_change (Ticker R) (DlyClose R)))))
              ''Strategy'' (grp_cumprod (Ticker R)
                  (one_plus (mul_col (shift signal) (grp_pct_change (Ticker R) (DlyClose R)))))"
    unfolding panel_returns_set_col using posR by simp
  have md: "grp_pct_change (Ticker R) (DlyClose R) = pct_change (DlyClose G)"
    unfolding TR DR using lG by (rule grp_pct_change_one_key)
  have c1: "grp_cumprod (Ticker R) (one_plus (pct_change (DlyClose G))) =
            cumprod (one_plus (pct_change (DlyClose G)))"
    unfolding TR by (rule grp_cumprod_one_key) (simp add: one_plus_def length_pct_change lG)
  have c2: "grp_cumprod (Ticker R) (one_plus (mul_col (shift signal) (pct_change (DlyClose G)))) =
            cumprod (one_plus (mul_col (shift signal) (pct_change (DlyClose G))))"
    unfolding TR
    by (rule grp_cumprod_one_key)
      (simp add: one_plus_def mul_col_def length_pct_change length_shift ls lG)
  show ?thesis
    apply (rule exI [of _ signal])
    unfolding K G_def [symmetric] R_def [symmetric]
    using ls posR by (simp add: set_col_def md c1 c2)
qed

subsection \<open>The example panel\<close>


lemmas panel_eval = panel_strategy_def panel_sma_def groupby_def key_rows_def key_mask_def
  get_rows_def pd_concat_def concat_col_def panel_returns_def grp_pct_change_def pct_of_def
  pct_change_def grp_cumprod_def cumprod_def nrows_def fun_upd_def sma_out_def

lemma ex_panel_keys: "sort (remdups (Ticker ex_panel)) = [''A'', ''B'']"
  unfolding ex_panel_def by code_simp

lemma ex_panel_wf: "wf_frame ex_panel"
  by (simp add: wf_frame_def ex_panel_def)

lemma ex_panel_rows:
  "DlyClose (key_rows ''A'' ex_panel) = [10, 12, 9]"
  "DlyClose (key_rows ''B'' ex_panel) = [10, 12, 9]"
  by (simp_all add: key_rows_def get_rows_def key_mask_def ex_panel_def)


lemmas sma_eval = calculate_sma_def Let_def rolling_mean_def window_mean_def set_col_def
  where_gt_def where_isna_def isna_def shift_def mul_col_def one_plus_def fsub_def upt_rec

lemma ex_panel_ticker:
  "\<exists>F. panel_strategy ex_panel 1 2 = Inr F \<and>
      Ticker F = [''A'', ''A'', ''A'', ''B'', ''B'', ''B''] \<and>
      cols F ''Position'' = Some [NaN, Val 0, Val 1, NaN, Val 0, Val 1]"
  by (simp add: panel_eval ex_panel_keys [unfolded ex_panel_def] sma_eval ex_panel_def)

subsection \<open>The first row of a ticker\<close>


lemma compress_first_of_key:
  assumes "length xs = length ks" "i < length ks" "ks ! i = t" "\<forall>j<i. ks ! j \<noteq> t"
  shows "compress (key_mask t ks) xs \<noteq> [] \<and> compress (key_mask t ks) xs ! 0 = xs ! i"
  using assms
proof (induction ks arbitrary: xs i)
  case Nil
  then show ?case by simp
next
  case (Cons k ks)
  from Cons.prems(1) obtain y ys where xs: "xs = y # ys" and l: "length ys = length ks"
    by (cases xs) auto
  show ?case
  proof (cases i)
    case 0
    with Cons.prems xs show ?thesis by simp
  next
    case (Suc i')
    with Cons.prems(4) have kt: "k \<noteq> t" by auto
    have "compress (key_mask t ks) ys \<noteq> [] \<and> compress (key_mask t ks) ys ! 0 = ys ! i'"
      using l Cons.prems Suc by (intro Cons.IH) auto
    then show ?thesis using kt xs Suc by simp
  qed
qed

lemma mul_col_first_NaN:
  "xs \<noteq> [] \<Longrightarrow> ys \<noteq> [] \<Longrightarrow> xs ! 0 = NaN \<Longrightarrow> mul_col xs ys ! 0 = NaN"
  by (cases xs; cases ys) (simp_all add: mul_col_def)

lemma one_plus_first_NaN: "xs \<noteq> [] \<Longrightarrow> xs ! 0 = NaN \<Longrightarrow> one_plus xs ! 0 = NaN"
  by (cases xs) (simp_all add: one_plus_def)

lemma minus_one_first_NaN: "xs \<noteq> [] \<Longrightarrow> xs ! 0 = NaN \<Longrightarrow> minus_one xs ! 0 = NaN"
  by (cases xs) (simp_all add: minus_one_def fsub_def)

lemma length_mul_col: "length (mul_col xs ys) = min (length xs) (length ys)"
  by (simp add: mul_col_def)

lemma length_one_plus: "length (one_plus xs) = length xs"
  by (simp add: one_plus_def)

lemma first_row_of_key:
  assumes wf: "wf_frame df" and F: "panel_strategy df fw sw = Inr F"
    and i: "i < nrows F" and first: "\<forall>j<i. Ticker F ! j \<noteq> Ticker F ! i"
    and c: "cols F ''Position'' = Some position" "cols F ''MarketDaily'' = Some md"
      "cols F ''StrategyDaily'' = Some sd" "cols F ''Strategy'' = Some s"
  shows "position ! i = NaN \<and> md ! i = NaN \<and> sd ! i = NaN \<and> s ! i = NaN"
proof -
  define t where "t = Ticker F ! i"
  define m where "m = key_mask t (Ticker F)"
  from F obtain P where P: "panel_sma df fw sw = Inr P"
    by (auto simp: panel_strategy_def split: sum.splits)
  from panel_sma_Inr [OF P] have ne: "Ticker df \<noteq> []" and w: "0 \<le> fw" "0 \<le> sw" by simp_all
  from panel_strategy_facts [OF wf ne w] F
  have wfF: "wf_frame F" and sF: "set (Ticker F) = set (Ticker df)" by auto
  have "t \<in> set (Ticker F)" using i by (simp add: t_def nrows_def)
  then have t: "t \<in> set (Ticker df)" using sF by simp
  have len: "length position = length (Ticker F)" "length md = length (Ticker F)"
    "length sd = length (Ticker F)" "length s = length (Ticker F)"
    using wfF c by (simp_all add: wf_frame_def)
  have sel: "compress m xs \<noteq> [] \<and> compress m xs ! 0 = xs ! i"
    if "length xs = length (Ticker F)" for xs :: "cell list"
    unfolding m_def using that
  proof (rule compress_first_of_key)
    show "i < length (Ticker F)" using i by (simp add: nrows_def)
    show "Ticker F ! i = t" by (simp add: t_def)
    show "\<forall>j<i. Ticker F ! j \<noteq> t" using first by (simp add: t_def)
  qed
  from single_asset_columns [OF wf t F] obtain signal where
    k: "cols (key_rows t F) ''Position'' = Some (shift signal)"
      "cols (key_rows t F) ''MarketDaily'' = Some (pct_change (DlyClose (key_rows t df)))"
      "cols (key_rows t F) ''StrategyDaily'' =
             Some (mul_col (shift signal) (pct_change (DlyClose (key_rows t df))))"
      "cols (key_rows t F) ''Strategy'' =
             Some (cumprod (one_plus (mul_col (shift signal) (pct_change (DlyClose (key_rows t df))))))"
    by blast
  define closes where "closes = DlyClose (key_rows t df)"
  have kp: "compress m position = shift signal"
    and kmd: "compress m md = pct_change closes"
    and ksd: "compress m sd = mul_col (shift signal) (pct_change closes)"
    and ks: "compress m s = cumprod (one_plus (mul_col (shift signal) (pct_change closes)))"
    using k c by (simp_all add: key_rows_fields m_def closes_def)
  have p1: "shift signal \<noteq> []" using sel [OF len(1)] kp by simp
  then have "0 < length signal" using length_shift [of signal] by (cases signal) simp_all
  then have p0: "shift signal ! 0 = NaN" by (rule shift_nth_0)
  have m1: "pct_change closes \<noteq> []" using sel [OF len(2)] kmd by simp
  then have "closes \<noteq> []" using length_pct_change [of closes] by (cases closes) simp_all
  then have m0: "pct_change closes ! 0 = NaN" by (rule pct_change_first)
  have sd0: "mul_col (shift signal) (pct_change closes) ! 0 = NaN"
    using p1 m1 p0 by (rule mul_col_first_NaN)
  have sd1: "mul_col (shift signal) (pct_change closes) \<noteq> []"
    using sel [OF len(3)] ksd by simp
  have o1: "one_plus (mul_col (shift signal) (pct_change closes)) \<noteq> []"
    using sd1 by (simp add: one_plus_def)
  have o0: "one_plus (mul_col (shift signal) (pct_change closes)) ! 0 = NaN"
    using sd1 sd0 by (rule one_plus_first_NaN)
  have s0: "cumprod (one_plus (mul_col (shift signal) (pct_change closes))) ! 0 = NaN"
    using o1 o0 by (rule cumprod_first_NaN)
  have "position ! i = NaN" using sel [OF len(1)] kp p0 by simp
  moreover have "md ! i = NaN" using sel [OF len(2)] kmd m0 by simp
  moreover have "sd ! i = NaN" using sel [OF len(3)] ksd sd0 by simp
  moreover have "s ! i = NaN" using sel [OF len(4)] ks s0 by simp
  ultimately show ?thesis by simp
qed

subsection \<open>The arrangements of \<^verbatim>\<open>calculate_sma\<close> and the whole exponential cell\<close>


lemma calculate_sma_in_std: "calculate_sma_in False False dfi fw sw = calculate_sma dfi fw sw"
  by (simp add: calculate_sma_in_def calculate_sma_def Let_def split: sum.splits)

lemma calculate_sma_in_None:
  assumes "calculate_sma_in sf pf dfi fw sw = (None, out)"
  defines "fast \<equiv> map (window_mean (nat fw) (DlyClose dfi)) [0..<length (DlyClose dfi)]"
  defines "slow \<equiv> map (window_mean (nat sw) (DlyClose dfi)) [0..<length (DlyClose dfi)]"
  shows "0 \<le> fw \<and> 0 \<le> sw \<and> Ticker out = Ticker dfi \<and> DlyClose out = DlyClose dfi \<and>
         cols out = (cols dfi)(''FastMA'' \<mapsto> fast, ''SlowMA'' \<mapsto> slow,
            ''Signal'' \<mapsto> where_isna slow (where_gt fast slow),
            ''Position'' \<mapsto> shift (if pf then where_gt fast slow
                                  else where_isna slow (where_gt fast slow)))"
proof -
  have w: "0 \<le> fw" "0 \<le> sw"
    using assms(1) by (cases sf; simp add: calculate_sma_in_def Let_def rolling_mean_def
        split: if_splits)+
  have rf: "rolling_mean fw (DlyClose dfi) = Inr fast" and rs: "rolling_mean sw (DlyClose dfi) = Inr slow"
    using w by (simp_all add: rolling_mean_def fast_def slow_def)
  have out: "out = snd (calculate_sma_in sf pf dfi fw sw)" using assms(1) by simp
  have t: "Ticker out = Ticker dfi" "DlyClose out = DlyClose dfi"
    unfolding out by (cases sf; cases pf; simp add: calculate_sma_in_def Let_def set_col_def rf rs)+
  have "cols out n = ((cols dfi)(''FastMA'' \<mapsto> fast, ''SlowMA'' \<mapsto> slow,
            ''Signal'' \<mapsto> where_isna slow (where_gt fast slow),
            ''Position'' \<mapsto> shift (if pf then where_gt fast slow
                                  else where_isna slow (where_gt fast slow)))) n" for n
    unfolding out by (cases sf; cases pf; simp add: calculate_sma_in_def Let_def set_col_def rf rs)
  then have "cols out = (cols dfi)(''FastMA'' \<mapsto> fast, ''SlowMA'' \<mapsto> slow,
            ''Signal'' \<mapsto> where_isna slow (where_gt fast slow),
            ''Position'' \<mapsto> shift (if pf then where_gt fast slow
                                  else where_isna slow (where_gt fast slow)))"
    by (rule ext)
  with w t show ?thesis by simp
qed

lemma calculate_sma_in_fst:
  "fst (calculate_sma_in sf pf dfi fw sw) = (if fw < 0 \<or> sw < 0 then Some ValueError else None)"
  by (simp add: calculate_sma_in_def Let_def set_col_def rolling_mean_def)




lemma arrangement_changes_position_only:
  assumes "0 \<le> fw" "0 \<le> sw"
  shows "fst (calculate_sma_in sf pf dfi fw sw) = None \<and>
         Ticker (snd (calculate_sma_in sf pf dfi fw sw)) = Ticker dfi \<and>
         DlyClose (snd (calculate_sma_in sf pf dfi fw sw)) = DlyClose dfi \<and>
         (\<forall>n. n \<noteq> ''Position'' \<longrightarrow>
            cols (snd (calculate_sma_in sf pf dfi fw sw)) n = cols (snd (calculate_sma dfi fw sw)) n)"
proof -
  have f: "fst (calculate_sma_in sf pf dfi fw sw) = None"
    using assms by (simp add: calculate_sma_in_fst)
  then have a: "calculate_sma_in sf pf dfi fw sw = (None, snd (calculate_sma_in sf pf dfi fw sw))"
    by (simp add: prod_eq_iff)
  have "fst (calculate_sma dfi fw sw) = None" using assms by (rule calculate_sma_total)
  then have b: "calculate_sma dfi fw sw = (None, snd (calculate_sma dfi fw sw))"
    by (simp add: prod_eq_iff)
  from calculate_sma_in_None [OF a] calculate_sma_None [OF b] f show ?thesis by simp
qed

lemma ema_strategy_ok:
  assumes "1 \<le> fw" "1 \<le> sw" "cols meta ''MarketDaily'' = Some md"
  shows "\<exists>out s. ema_strategy meta fw sw = Inr out \<and> cols out ''Strategy'' = Some s \<and>
           length s = min (length (DlyClose meta)) (length md)"
proof -
  obtain fast where f: "ewm_mean fw (DlyClose meta) = Inr fast"
    using assms(1) by (simp add: ewm_mean_def)
  obtain slow where s: "ewm_mean sw (DlyClose meta) = Inr slow"
    using assms(2) by (simp add: ewm_mean_def)
  have lf: "length fast = length (DlyClose meta)" and ls: "length slow = length (DlyClose meta)"
    using ewm_mean_Inr [OF f] ewm_mean_Inr [OF s] by simp_all
  define position where "position = shift (where_isna slow (where_gt fast slow))"
  define strategy where "strategy = minus_one (cumprod (one_plus (mul_col position md)))"
  have lp: "length position = length (DlyClose meta)"
    by (simp add: position_def length_shift length_where_isna length_where_gt lf ls)
  have l: "length strategy = min (length (DlyClose meta)) (length md)"
    by (simp add: strategy_def minus_one_def length_cumprod length_one_plus length_mul_col lp)
  have "\<exists>out. ema_strategy meta fw sw = Inr out \<and> cols out ''Strategy'' = Some strategy"
    using f s assms(3)
    by (simp add: ema_strategy_def Let_def set_col_def strategy_def position_def)
  with l show ?thesis by blast
qed

lemma ema_strategy_Inl:
  "fw < 1 \<or> sw < 1 \<Longrightarrow> ema_strategy meta fw sw = Inl ValueError"
  "1 \<le> fw \<Longrightarrow> 1 \<le> sw \<Longrightarrow> cols meta ''MarketDaily'' = None \<Longrightarrow>
     ema_strategy meta fw sw = Inl AttributeError"
  by (auto simp: ema_strategy_def ewm_mean_def Let_def set_col_def)

subsection \<open>Cumulative returns\<close>

text \<open>
  The running product behind \<^verbatim>\<open>cumprod\<close>: at a row that is not missing, the product of
  the values up to that row that are not missing.
\<close>

lemma cumprod_from_nth:
  "i < length xs \<Longrightarrow>
   cumprod_from a xs ! i =
     (if isna (xs ! i) then NaN
      else foldl fmul a (filter (\<lambda>x. \<not> isna x) (take (Suc i) xs)))"
proof (induction xs arbitrary: a i)
  case Nil
  then show ?case by simp
next
  case (Cons x xs)
  show ?case
  proof (cases i)
    case 0
    then show ?thesis by simp
  next
    case (Suc j)
    with Cons.prems have "j < length xs" by simp
    then show ?thesis using Suc by (simp add: Cons.IH)
  qed
qed

lemma cumprod_nth:
  "i < length xs \<Longrightarrow>
   cumprod xs ! i =
     (if isna (xs ! i) then NaN
      else foldl fmul (Val 1) (filter (\<lambda>x. \<not> isna x) (take (Suc i) xs)))"
  by (simp add: cumprod_def cumprod_from_nth)

text \<open>
  The exponential cell stores the running product minus 1; the panel cell stores, in the
  rows of each ticker, the running product itself.
\<close>


lemma ema_cumulative_minus_one:
  assumes "ema_strategy meta fw sw = Inr out"
  shows "\<exists>stratret strategy.
           cols out ''StratRet'' = Some stratret \<and> cols out ''Strategy'' = Some strategy \<and>
           length strategy = length stratret \<and>
           (\<forall>i<length stratret.
              strategy ! i =
                fsub (if isna (fadd (Val 1) (stratret ! i)) then NaN
                      else foldl fmul (Val 1)
                             (filter (\<lambda>x. \<not> isna x) (take (Suc i) (one_plus stratret))))
                     (Val 1))"
proof -
  from ema_strategy_Inr [OF assms] obtain fast slow md where
    co: "cols out = (cols meta)(''FastEMA'' \<mapsto> fast, ''SlowEMA'' \<mapsto> slow,
              ''Signal'' \<mapsto> where_isna slow (where_gt fast slow),
              ''Position'' \<mapsto> shift (where_isna slow (where_gt fast slow)),
              ''StratRet'' \<mapsto> mul_col (shift (where_isna slow (where_gt fast slow))) md,
              ''Strategy'' \<mapsto> minus_one (cumprod (one_plus
                  (mul_col (shift (where_isna slow (where_gt fast slow))) md))))"
    by blast
  define sr where "sr = mul_col (shift (where_isna slow (where_gt fast slow))) md"
  have c: "cols out ''StratRet'' = Some sr"
    "cols out ''Strategy'' = Some (minus_one (cumprod (one_plus sr)))"
    by (simp_all add: co sr_def)
  have l: "length (minus_one (cumprod (one_plus sr))) = length sr"
    by (simp add: minus_one_def length_cumprod length_one_plus)
  have v: "minus_one (cumprod (one_plus sr)) ! i =
                fsub (if isna (fadd (Val 1) (sr ! i)) then NaN
                      else foldl fmul (Val 1)
                             (filter (\<lambda>x. \<not> isna x) (take (Suc i) (one_plus sr))))
                     (Val 1)"
    if "i < length sr" for i
  proof -
    have "i < length (one_plus sr)" using that by (simp add: length_one_plus)
    from cumprod_nth [OF this] that show ?thesis
      by (simp add: minus_one_def length_cumprod length_one_plus one_plus_def)
  qed
  show ?thesis
    apply (rule exI [of _ sr], rule exI [of _ "minus_one (cumprod (one_plus sr))"])
    using c l v by simp
qed

lemma panel_cumulative_running_product:
  assumes "wf_frame df" "t \<in> set (Ticker df)" "panel_strategy df fw sw = Inr F"
  shows "\<exists>md market.
           cols (key_rows t F) ''MarketDaily'' = Some md \<and>
           cols (key_rows t F) ''Market'' = Some market \<and>
           length market = length md \<and>
           (\<forall>i<length md.
              market ! i =
                (if isna (fadd (Val 1) (md ! i)) then NaN
                 else foldl fmul (Val 1)
                        (filter (\<lambda>x. \<not> isna x) (take (Suc i) (one_plus md)))))"
proof -
  from single_asset_columns [OF assms] obtain signal where
    k: "cols (key_rows t F) ''MarketDaily'' = Some (pct_change (DlyClose (key_rows t df)))"
      "cols (key_rows t F) ''Market'' =
             Some (cumprod (one_plus (pct_change (DlyClose (key_rows t df)))))"
    by blast
  define md where "md = pct_change (DlyClose (key_rows t df))"
  have v: "cumprod (one_plus md) ! i =
                (if isna (fadd (Val 1) (md ! i)) then NaN
                 else foldl fmul (Val 1)
                        (filter (\<lambda>x. \<not> isna x) (take (Suc i) (one_plus md))))"
    if "i < length md" for i
  proof -
    have "i < length (one_plus md)" using that by (simp add: length_one_plus)
    from cumprod_nth [OF this] that show ?thesis by (simp add: one_plus_def)
  qed
  show ?thesis
    apply (rule exI [of _ md], rule exI [of _ "cumprod (one_plus md)"])
    using k v by (simp add: md_def length_cumprod length_one_plus)
qed

text \<open>
  C1. The claim is that the cumulative market and strategy columns are the running product
  of one plus the daily return, minus 1, per asset. The exponential cell subtracts 1; the
  panel cell does not. On the example panel (two tickers with the prices 10, 12, 9, and the
  notebook's windows 50 and 200, so that the position is flat) the panel cell's Market
  column is 6/5 and 9/10 where the cumulative return is 1/5 and -1/10, and its Strategy
  column is 1 where the cumulative return of a flat position is 0. The product does restart
  at each ticker.
\<close>

theorem panel_cumulative_is_gross:
  "\<exists>F md market strategy.
      panel_strategy ex_panel 50 200 = Inr F \<and>
      Ticker F = [''A'', ''A'', ''A'', ''B'', ''B'', ''B''] \<and>
      DlyClose F = [10, 12, 9, 10, 12, 9] \<and>
      cols F ''MarketDaily'' = Some md \<and>
      md = [NaN, Val (1 / 5), Val (- (1 / 4)), NaN, Val (1 / 5), Val (- (1 / 4))] \<and>
      cols F ''StrategyDaily'' = Some [NaN, Val 0, Val 0, NaN, Val 0, Val 0] \<and>
      cols F ''Market'' = Some market \<and>
      market = [NaN, Val (6 / 5), Val (9 / 10), NaN, Val (6 / 5), Val (9 / 10)] \<and>
      cols F ''Strategy'' = Some strategy \<and>
      strategy = [NaN, Val 1, Val 1, NaN, Val 1, Val 1] \<and>
      minus_one market = [NaN, Val (1 / 5), Val (- (1 / 10)), NaN, Val (1 / 5), Val (- (1 / 10))] \<and>
      market \<noteq> minus_one market \<and>
      minus_one strategy = [NaN, Val 0, Val 0, NaN, Val 0, Val 0] \<and>
      strategy \<noteq> minus_one strategy"
  by (simp add: panel_eval ex_panel_keys [unfolded ex_panel_def] sma_eval ex_panel_def minus_one_def)

subsection \<open>Signal\<close>

text \<open>
  C2. In the result of \<^verbatim>\<open>calculate_sma\<close> and in the result of the exponential cell, the
  signal at every row is 0 where the slow average is missing, and otherwise +1 if the fast
  average is greater than the slow average and -1 if not; equal averages give -1; the
  signal is always one of -1, 0 and +1.
\<close>

theorem signal_rule:
  "(calculate_sma dfi fw sw = (None, out) \<longrightarrow>
      (\<exists>fast slow signal.
         cols out ''FastMA'' = Some fast \<and> cols out ''SlowMA'' = Some slow \<and>
         cols out ''Signal'' = Some signal \<and>
         length fast = length (DlyClose dfi) \<and> length slow = length (DlyClose dfi) \<and>
         length signal = length (DlyClose dfi) \<and>
         (\<forall>i<length signal.
            signal ! i = (if isna (slow ! i) then Val 0
                          else if fgt (fast ! i) (slow ! i) then Val 1 else Val (- 1)) \<and>
            (fast ! i = slow ! i \<and> \<not> isna (slow ! i) \<longrightarrow> signal ! i = Val (- 1)) \<and>
            signal ! i \<in> {Val (- 1), Val 0, Val 1}))) \<and>
   (ema_strategy meta fw' sw' = Inr out' \<longrightarrow>
      (\<exists>fast slow signal.
         cols out' ''FastEMA'' = Some fast \<and> cols out' ''SlowEMA'' = Some slow \<and>
         cols out' ''Signal'' = Some signal \<and>
         length fast = length (DlyClose meta) \<and> length slow = length (DlyClose meta) \<and>
         length signal = length (DlyClose meta) \<and>
         (\<forall>i<length signal.
            signal ! i = (if isna (slow ! i) then Val 0
                          else if fgt (fast ! i) (slow ! i) then Val 1 else Val (- 1)) \<and>
            (fast ! i = slow ! i \<and> \<not> isna (slow ! i) \<longrightarrow> signal ! i = Val (- 1)) \<and>
            signal ! i \<in> {Val (- 1), Val 0, Val 1})))"
proof (intro conjI impI)
  assume a: "calculate_sma dfi fw sw = (None, out)"
  define n where "n = length (DlyClose dfi)"
  define fast where "fast = map (window_mean (nat fw) (DlyClose dfi)) [0..<n]"
  define slow where "slow = map (window_mean (nat sw) (DlyClose dfi)) [0..<n]"
  define signal where "signal = where_isna slow (where_gt fast slow)"
  have len: "length fast = n" "length slow = n" "length signal = n"
    by (simp_all add: fast_def slow_def signal_def length_where_isna length_where_gt)
  have c: "cols out ''FastMA'' = Some fast" "cols out ''SlowMA'' = Some slow"
    "cols out ''Signal'' = Some signal"
    using calculate_sma_None [OF a] by (simp_all add: fast_def slow_def signal_def n_def)
  have v: "signal ! i = (if isna (slow ! i) then Val 0
                          else if fgt (fast ! i) (slow ! i) then Val 1 else Val (- 1))"
    if "i < n" for i
    unfolding signal_def using len(1,2) that by (rule signal_values)
  show "\<exists>fast slow signal.
         cols out ''FastMA'' = Some fast \<and> cols out ''SlowMA'' = Some slow \<and>
         cols out ''Signal'' = Some signal \<and>
         length fast = length (DlyClose dfi) \<and> length slow = length (DlyClose dfi) \<and>
         length signal = length (DlyClose dfi) \<and>
         (\<forall>i<length signal.
            signal ! i = (if isna (slow ! i) then Val 0
                          else if fgt (fast ! i) (slow ! i) then Val 1 else Val (- 1)) \<and>
            (fast ! i = slow ! i \<and> \<not> isna (slow ! i) \<longrightarrow> signal ! i = Val (- 1)) \<and>
            signal ! i \<in> {Val (- 1), Val 0, Val 1})"
    apply (rule exI [of _ fast], rule exI [of _ slow], rule exI [of _ signal])
    using c len v by (auto simp: n_def [symmetric] fgt_irrefl)
next
  assume a: "ema_strategy meta fw' sw' = Inr out'"
  define n where "n = length (DlyClose meta)"
  from ema_strategy_Inr [OF a] obtain fast slow md where
    f: "ewm_mean fw' (DlyClose meta) = Inr fast" and
    s: "ewm_mean sw' (DlyClose meta) = Inr slow" and
    co: "cols out' = (cols meta)(''FastEMA'' \<mapsto> fast, ''SlowEMA'' \<mapsto> slow,
              ''Signal'' \<mapsto> where_isna slow (where_gt fast slow),
              ''Position'' \<mapsto> shift (where_isna slow (where_gt fast slow)),
              ''StratRet'' \<mapsto> mul_col (shift (where_isna slow (where_gt fast slow))) md,
              ''Strategy'' \<mapsto> minus_one (cumprod (one_plus
                  (mul_col (shift (where_isna slow (where_gt fast slow))) md))))"
    by blast
  define signal where "signal = where_isna slow (where_gt fast slow)"
  have len: "length fast = n" "length slow = n" "length signal = n"
    using ewm_mean_Inr [OF f] ewm_mean_Inr [OF s]
    by (simp_all add: signal_def length_where_isna length_where_gt n_def)
  have c: "cols out' ''FastEMA'' = Some fast" "cols out' ''SlowEMA'' = Some slow"
    "cols out' ''Signal'' = Some signal"
    by (simp_all add: co signal_def)
  have v: "signal ! i = (if isna (slow ! i) then Val 0
                          else if fgt (fast ! i) (slow ! i) then Val 1 else Val (- 1))"
    if "i < n" for i
    unfolding signal_def using len(1,2) that by (rule signal_values)
  show "\<exists>fast slow signal.
         cols out' ''FastEMA'' = Some fast \<and> cols out' ''SlowEMA'' = Some slow \<and>
         cols out' ''Signal'' = Some signal \<and>
         length fast = length (DlyClose meta) \<and> length slow = length (DlyClose meta) \<and>
         length signal = length (DlyClose meta) \<and>
         (\<forall>i<length signal.
            signal ! i = (if isna (slow ! i) then Val 0
                          else if fgt (fast ! i) (slow ! i) then Val 1 else Val (- 1)) \<and>
            (fast ! i = slow ! i \<and> \<not> isna (slow ! i) \<longrightarrow> signal ! i = Val (- 1)) \<and>
            signal ! i \<in> {Val (- 1), Val 0, Val 1})"
    apply (rule exI [of _ fast], rule exI [of _ slow], rule exI [of _ signal])
    using c len v by (auto simp: n_def [symmetric] fgt_irrefl)
qed

theorem signal_rule_witness:
  "calculate_sma ex_prices 1 2 = (None, snd (calculate_sma ex_prices 1 2)) \<and>
   cols (snd (calculate_sma ex_prices 1 2)) ''Signal'' =
     Some [Val 0, Val (- 1), Val 1, Val (- 1), Val (- 1), Val 1] \<and>
   (\<exists>out. ema_strategy ex_meta 1 2 = Inr out \<and>
      cols out ''Signal'' = Some [Val (- 1), Val (- 1), Val 1, Val (- 1), Val (- 1), Val 1])"
  using signal_rule [of ex_prices 1 2 "snd (calculate_sma ex_prices 1 2)" ex_meta 1 2]
  by (simp add: ex_eval)

subsection \<open>Position\<close>




subsection \<open>Failures\<close>

text \<open>
  C4, as stated, fails: \<^verbatim>\<open>calculate_sma\<close> checks nothing itself. In every arrangement of
  its statements an empty series with the windows 50 and 200 returns normally, and so does a
  window of 0.
\<close>

theorem no_validation_counterexample:
  "fst (calculate_sma_in False False empty_frame 50 200) = None \<and>
   fst (calculate_sma_in False True empty_frame 50 200) = None \<and>
   fst (calculate_sma_in True False empty_frame 50 200) = None \<and>
   fst (calculate_sma_in True True empty_frame 50 200) = None \<and>
   fst (calculate_sma_in False False ex_prices 0 0) = None \<and>
   fst (calculate_sma_in False True ex_prices 0 0) = None \<and>
   fst (calculate_sma_in True False ex_prices 0 0) = None \<and>
   fst (calculate_sma_in True True ex_prices 0 0) = None"
  by (simp add: calculate_sma_in_fst)

text \<open>
  C4, amended, for windows that fit a 64-bit integer. In every arrangement of its
  statements \<^verbatim>\<open>calculate_sma\<close> fails exactly when a window is negative, with the
  library's ValueError; the frame is untouched when the window of the average assigned
  first is negative, and holds that first average when only the other window is negative.
  An empty series is accepted and gives empty columns. The exponential cell fails with
  ValueError when a span is below 1, else with AttributeError when the frame has no daily
  return column, else with IndexError at its last line when the series has no rows, after
  all its columns are computed; otherwise it returns.
\<close>

theorem fails_only_in_library:
  "(fw < 2 ^ 63 \<and> sw < 2 ^ 63 \<longrightarrow>
      fst (calculate_sma_in slow_first position_first dfi fw sw) =
        (if fw < 0 \<or> sw < 0 then Some ValueError else None) \<and>
      ((if slow_first then sw else fw) < 0 \<longrightarrow>
         snd (calculate_sma_in slow_first position_first dfi fw sw) = dfi) \<and>
      (0 \<le> (if slow_first then sw else fw) \<and> (if slow_first then fw else sw) < 0 \<longrightarrow>
         snd (calculate_sma_in slow_first position_first dfi fw sw) =
           set_col dfi (if slow_first then ''SlowMA'' else ''FastMA'')
             (map (window_mean (nat (if slow_first then sw else fw)) (DlyClose dfi))
                [0..<length (DlyClose dfi)])) \<and>
      (0 \<le> fw \<and> 0 \<le> sw \<and> DlyClose dfi = [] \<longrightarrow>
         (\<forall>n\<in>{''FastMA'', ''SlowMA'', ''Signal'', ''Position''}.
            cols (snd (calculate_sma_in slow_first position_first dfi fw sw)) n = Some []))) \<and>
   (wf_frame meta \<and> fw' < 2 ^ 63 \<and> sw' < 2 ^ 63 \<longrightarrow>
      (fw' < 1 \<or> sw' < 1 \<longrightarrow> ema_cell meta fw' sw' = Inl ValueError) \<and>
      (1 \<le> fw' \<and> 1 \<le> sw' \<and> cols meta ''MarketDaily'' = None \<longrightarrow>
         ema_cell meta fw' sw' = Inl AttributeError) \<and>
      (1 \<le> fw' \<and> 1 \<le> sw' \<and> cols meta ''MarketDaily'' \<noteq> None \<and> DlyClose meta = [] \<longrightarrow>
         ema_cell meta fw' sw' = Inl IndexError \<and>
         (\<exists>out. ema_strategy meta fw' sw' = Inr out \<and> cols out ''Strategy'' = Some [])) \<and>
      (1 \<le> fw' \<and> 1 \<le> sw' \<and> cols meta ''MarketDaily'' \<noteq> None \<and> DlyClose meta \<noteq> [] \<longrightarrow>
         (\<exists>out s. ema_strategy meta fw' sw' = Inr out \<and> cols out ''Strategy'' = Some s \<and>
            ema_cell meta fw' sw' = Inr (out, last s))))"
proof (intro conjI impI)
  show "fst (calculate_sma_in slow_first position_first dfi fw sw) =
        (if fw < 0 \<or> sw < 0 then Some ValueError else None)"
    by (rule calculate_sma_in_fst)
  show "snd (calculate_sma_in slow_first position_first dfi fw sw) = dfi"
    if "(if slow_first then sw else fw) < 0"
    using that by (cases slow_first) (simp_all add: calculate_sma_in_def Let_def rolling_mean_def)
  show "snd (calculate_sma_in slow_first position_first dfi fw sw) =
           set_col dfi (if slow_first then ''SlowMA'' else ''FastMA'')
             (map (window_mean (nat (if slow_first then sw else fw)) (DlyClose dfi))
                [0..<length (DlyClose dfi)])"
    if "0 \<le> (if slow_first then sw else fw) \<and> (if slow_first then fw else sw) < 0"
    using that
    by (cases slow_first) (simp_all add: calculate_sma_in_def Let_def rolling_mean_def set_col_def)
  show "\<forall>n\<in>{''FastMA'', ''SlowMA'', ''Signal'', ''Position''}.
            cols (snd (calculate_sma_in slow_first position_first dfi fw sw)) n = Some []"
    if "0 \<le> fw \<and> 0 \<le> sw \<and> DlyClose dfi = []"
    using that
    by (cases slow_first; cases position_first)
      (simp_all add: calculate_sma_in_def Let_def rolling_mean_def set_col_def where_gt_def
        where_isna_def shift_def)
next
  assume h: "wf_frame meta \<and> fw' < 2 ^ 63 \<and> sw' < 2 ^ 63"
  show "ema_cell meta fw' sw' = Inl ValueError" if "fw' < 1 \<or> sw' < 1"
    using ema_strategy_Inl(1) [OF that] by (simp add: ema_cell_def)
  show "ema_cell meta fw' sw' = Inl AttributeError"
    if "1 \<le> fw' \<and> 1 \<le> sw' \<and> cols meta ''MarketDaily'' = None"
    using ema_strategy_Inl(2) [of fw' sw' meta] that by (simp add: ema_cell_def)
  {
    assume a: "1 \<le> fw' \<and> 1 \<le> sw' \<and> cols meta ''MarketDaily'' \<noteq> None \<and> DlyClose meta = []"
    then obtain md where md: "cols meta ''MarketDaily'' = Some md" by auto
    from a ema_strategy_ok [OF _ _ md, of fw' sw'] obtain out s where
      o: "ema_strategy meta fw' sw' = Inr out" "cols out ''Strategy'' = Some s"
        "length s = min (length (DlyClose meta)) (length md)"
      by auto
    from o(3) a have s: "s = []" by simp
    show "ema_cell meta fw' sw' = Inl IndexError"
      using o s by (simp add: ema_cell_def iloc_last_def)
    show "\<exists>out. ema_strategy meta fw' sw' = Inr out \<and> cols out ''Strategy'' = Some []"
      using o s by simp
  }
  {
    assume a: "1 \<le> fw' \<and> 1 \<le> sw' \<and> cols meta ''MarketDaily'' \<noteq> None \<and> DlyClose meta \<noteq> []"
    then obtain md where md: "cols meta ''MarketDaily'' = Some md" by auto
    from h md have lmd: "length md = length (DlyClose meta)"
      by (simp add: wf_frame_def)
    from a ema_strategy_ok [OF _ _ md, of fw' sw'] obtain out s where
      o: "ema_strategy meta fw' sw' = Inr out" "cols out ''Strategy'' = Some s"
        "length s = min (length (DlyClose meta)) (length md)"
      by auto
    from o(3) a lmd have s: "s \<noteq> []" by auto
    have "ema_cell meta fw' sw' = Inr (out, last s)"
      using o s by (simp add: ema_cell_def iloc_last_def)
    with o show "\<exists>out s. ema_strategy meta fw' sw' = Inr out \<and> cols out ''Strategy'' = Some s \<and>
            ema_cell meta fw' sw' = Inr (out, last s)"
      by blast
  }
qed

theorem fails_only_in_library_witness:
  "(50::int) < 2 ^ 63 \<and> (200::int) < 2 ^ 63 \<and>
   fst (calculate_sma_in False False empty_frame 50 200) = None \<and>
   cols (snd (calculate_sma_in False False empty_frame 50 200)) ''Signal'' = Some [] \<and>
   fst (calculate_sma_in True False ex_prices 1 (- 1)) = Some ValueError \<and>
   snd (calculate_sma_in True False ex_prices 1 (- 1)) = ex_prices \<and>
   wf_frame empty_meta \<and> ema_cell empty_meta 50 200 = Inl IndexError \<and>
   wf_frame ex_meta \<and> ema_cell ex_meta 0 2 = Inl ValueError \<and>
   (\<exists>out v. ema_cell ex_meta 1 2 = Inr (out, v))"
proof -
  have b: "(50::int) < 2 ^ 63 \<and> (200::int) < 2 ^ 63" "(1::int) < 2 ^ 63 \<and> (- 1::int) < 2 ^ 63"
    "(0::int) < 2 ^ 63" "(2::int) < 2 ^ 63"
    by simp_all
  have wfe: "wf_frame empty_meta" by (simp add: wf_frame_def empty_meta_def)
  have wfm: "wf_frame ex_meta" by (simp add: wf_frame_def ex_meta_def)
  have h1: "wf_frame empty_meta \<and> (50::int) < 2 ^ 63 \<and> (200::int) < 2 ^ 63" using wfe by simp
  have h2: "wf_frame ex_meta \<and> (0::int) < 2 ^ 63 \<and> (2::int) < 2 ^ 63" using wfm by simp
  have h3: "wf_frame ex_meta \<and> (1::int) < 2 ^ 63 \<and> (2::int) < 2 ^ 63" using wfm by simp
  note t1 = fails_only_in_library [of 50 200 False False empty_frame empty_meta 50 200]
  note t2 = fails_only_in_library [of 1 "- 1" True False ex_prices ex_meta 0 2]
  note t3 = fails_only_in_library [of 1 "- 1" True False ex_prices ex_meta 1 2]
  note s1 = t1 [THEN conjunct1, THEN mp, OF b(1)]
  from s1 have 1: "fst (calculate_sma_in False False empty_frame 50 200) = None"
    by simp
  from s1 have "(0::int) \<le> 50 \<and> (0::int) \<le> 200 \<and> DlyClose empty_frame = [] \<longrightarrow>
         (\<forall>n\<in>{''FastMA'', ''SlowMA'', ''Signal'', ''Position''}.
            cols (snd (calculate_sma_in False False empty_frame 50 200)) n = Some [])"
    by (elim conjE)
  then have 2: "cols (snd (calculate_sma_in False False empty_frame 50 200)) ''Signal'' = Some []"
    by (simp add: empty_frame_def)
  note s2 = t2 [THEN conjunct1, THEN mp, OF b(2)]
  from s2 have 3: "fst (calculate_sma_in True False ex_prices 1 (- 1)) = Some ValueError"
    by simp
  from s2 have "(if True then (- 1::int) else 1) < 0 \<longrightarrow>
         snd (calculate_sma_in True False ex_prices 1 (- 1)) = ex_prices"
    by (elim conjE)
  then have 4: "snd (calculate_sma_in True False ex_prices 1 (- 1)) = ex_prices" by simp
  note e1 = t1 [THEN conjunct2, THEN mp, OF h1]
  from e1 have "1 \<le> (50::int) \<and> 1 \<le> (200::int) \<and> cols empty_meta ''MarketDaily'' \<noteq> None \<and>
      DlyClose empty_meta = [] \<longrightarrow>
         ema_cell empty_meta 50 200 = Inl IndexError \<and>
         (\<exists>out. ema_strategy empty_meta 50 200 = Inr out \<and> cols out ''Strategy'' = Some [])"
    by (elim conjE)
  then have 5: "ema_cell empty_meta 50 200 = Inl IndexError" by (simp add: empty_meta_def)
  note e2 = t2 [THEN conjunct2, THEN mp, OF h2]
  from e2 have "(0::int) < 1 \<or> (2::int) < 1 \<longrightarrow> ema_cell ex_meta 0 2 = Inl ValueError"
    by (elim conjE)
  then have 6: "ema_cell ex_meta 0 2 = Inl ValueError" by simp
  note e3 = t3 [THEN conjunct2, THEN mp, OF h3]
  from e3 have "1 \<le> (1::int) \<and> 1 \<le> (2::int) \<and> cols ex_meta ''MarketDaily'' \<noteq> None \<and>
      DlyClose ex_meta \<noteq> [] \<longrightarrow>
         (\<exists>out s. ema_strategy ex_meta 1 2 = Inr out \<and> cols out ''Strategy'' = Some s \<and>
            ema_cell ex_meta 1 2 = Inr (out, last s))"
    by (elim conjE)
  then have "\<exists>out s. ema_strategy ex_meta 1 2 = Inr out \<and> cols out ''Strategy'' = Some s \<and>
            ema_cell ex_meta 1 2 = Inr (out, last s)"
    by (simp add: ex_meta_def)
  then have 7: "\<exists>out v. ema_cell ex_meta 1 2 = Inr (out, v)" by blast
  from b(1) 1 2 3 4 wfe 5 wfm 6 7 show ?thesis by (intro conjI) simp_all
qed

subsection \<open>Row count\<close>

text \<open>
  C5. For a frame whose columns all have one value per row and windows that the library
  accepts, \<^verbatim>\<open>calculate_sma\<close> returns a frame with as many rows as it was given, and so
  does the group-wise application to a non-empty panel, also after the return columns are
  added; every column the code adds has that many rows.
\<close>

theorem row_count_preserved:
  "wf_frame df \<and> 0 \<le> fw \<and> 0 \<le> sw \<longrightarrow>
     (\<exists>out. calculate_sma df fw sw = (None, out) \<and> nrows out = nrows df \<and> wf_frame out \<and>
        (\<forall>n\<in>{''FastMA'', ''SlowMA'', ''Signal'', ''Position''}.
           \<exists>c. cols out n = Some c \<and> length c = nrows df)) \<and>
     (Ticker df \<noteq> [] \<longrightarrow>
        (\<exists>P F. panel_sma df fw sw = Inr P \<and> nrows P = nrows df \<and> wf_frame P \<and>
           panel_strategy df fw sw = Inr F \<and> nrows F = nrows df \<and> wf_frame F \<and>
           (\<forall>n\<in>{''FastMA'', ''SlowMA'', ''Signal'', ''Position'',
                 ''MarketDaily'', ''StrategyDaily'', ''Market'', ''Strategy''}.
              \<exists>c. cols F n = Some c \<and> length c = nrows df)))"
proof (intro impI conjI)
  assume a: "wf_frame df \<and> 0 \<le> fw \<and> 0 \<le> sw"
  then have wf: "wf_frame df" and w: "0 \<le> fw" "0 \<le> sw" by simp_all
  obtain e out where c: "calculate_sma df fw sw = (e, out)" by (cases "calculate_sma df fw sw")
  have "e = None" using calculate_sma_total [OF w, of df] c by simp
  with c have c': "calculate_sma df fw sw = (None, out)" by simp
  have o: "sma_out df fw sw = out" by (simp add: sma_out_def c)
  have wfo: "wf_frame out" using wf_sma_out [OF wf w] o by simp
  have t: "Ticker out = Ticker df" using sma_out_fields(1) [OF w, of df] o by simp
  have cs: "\<forall>n\<in>{''FastMA'', ''SlowMA'', ''Signal'', ''Position''}. cols out n \<noteq> None"
    using sma_out_fields(3) [OF w, of df] o by simp
  have "\<forall>n\<in>{''FastMA'', ''SlowMA'', ''Signal'', ''Position''}.
           \<exists>c. cols out n = Some c \<and> length c = nrows df"
    using cs wfo t unfolding wf_frame_def nrows_def by fastforce
  with c' wfo t show "\<exists>out. calculate_sma df fw sw = (None, out) \<and> nrows out = nrows df \<and> wf_frame out \<and>
        (\<forall>n\<in>{''FastMA'', ''SlowMA'', ''Signal'', ''Position''}.
           \<exists>c. cols out n = Some c \<and> length c = nrows df)"
    by (auto simp: nrows_def)
next
  assume a: "wf_frame df \<and> 0 \<le> fw \<and> 0 \<le> sw" and ne: "Ticker df \<noteq> []"
  from a have wf: "wf_frame df" and w: "0 \<le> fw" "0 \<le> sw" by simp_all
  from panel_strategy_facts [OF wf ne w] obtain P F where
    f: "panel_sma df fw sw = Inr P" "nrows P = nrows df" "wf_frame P"
      "panel_strategy df fw sw = Inr F" "nrows F = nrows df" "wf_frame F"
      "\<forall>n\<in>{''FastMA'', ''SlowMA'', ''Signal'', ''Position'',
                 ''MarketDaily'', ''StrategyDaily'', ''Market'', ''Strategy''}.
              \<exists>c. cols F n = Some c \<and> length c = nrows df"
    by (elim exE conjE)
  have "panel_sma df fw sw = Inr P \<and> nrows P = nrows df \<and> wf_frame P \<and>
           panel_strategy df fw sw = Inr F \<and> nrows F = nrows df \<and> wf_frame F \<and>
           (\<forall>n\<in>{''FastMA'', ''SlowMA'', ''Signal'', ''Position'',
                 ''MarketDaily'', ''StrategyDaily'', ''Market'', ''Strategy''}.
              \<exists>c. cols F n = Some c \<and> length c = nrows df)"
    by (intro conjI) (fact f)+
  then show "\<exists>P F. panel_sma df fw sw = Inr P \<and> nrows P = nrows df \<and> wf_frame P \<and>
           panel_strategy df fw sw = Inr F \<and> nrows F = nrows df \<and> wf_frame F \<and>
           (\<forall>n\<in>{''FastMA'', ''SlowMA'', ''Signal'', ''Position'',
                 ''MarketDaily'', ''StrategyDaily'', ''Market'', ''Strategy''}.
              \<exists>c. cols F n = Some c \<and> length c = nrows df)"
    by (intro exI)
qed

theorem row_count_preserved_witness:
  "wf_frame ex_panel \<and> Ticker ex_panel \<noteq> [] \<and>
   (\<exists>out. calculate_sma ex_panel 1 2 = (None, out) \<and> nrows out = 6) \<and>
   (\<exists>F. panel_strategy ex_panel 1 2 = Inr F \<and> nrows F = 6 \<and> wf_frame F)"
proof -
  have h: "wf_frame ex_panel \<and> (0::int) \<le> 1 \<and> (0::int) \<le> 2"
    by (simp add: wf_frame_def ex_panel_def)
  have ne: "Ticker ex_panel \<noteq> []" by (simp add: ex_panel_def)
  have n: "nrows ex_panel = 6" by (simp add: nrows_def ex_panel_def)
  from row_count_preserved [of ex_panel 1 2] h ne
  have r: "(\<exists>out. calculate_sma ex_panel 1 2 = (None, out) \<and> nrows out = nrows ex_panel \<and>
             wf_frame out \<and>
             (\<forall>n\<in>{''FastMA'', ''SlowMA'', ''Signal'', ''Position''}.
                \<exists>c. cols out n = Some c \<and> length c = nrows ex_panel))"
    "(\<exists>P F. panel_sma ex_panel 1 2 = Inr P \<and> nrows P = nrows ex_panel \<and> wf_frame P \<and>
           panel_strategy ex_panel 1 2 = Inr F \<and> nrows F = nrows ex_panel \<and> wf_frame F \<and>
           (\<forall>n\<in>{''FastMA'', ''SlowMA'', ''Signal'', ''Position'',
                 ''MarketDaily'', ''StrategyDaily'', ''Market'', ''Strategy''}.
              \<exists>c. cols F n = Some c \<and> length c = nrows ex_panel))"
    by simp_all
  from r(1) obtain out where "calculate_sma ex_panel 1 2 = (None, out)" "nrows out = nrows ex_panel"
    by (elim exE conjE)
  then have 1: "\<exists>out. calculate_sma ex_panel 1 2 = (None, out) \<and> nrows out = 6"
    using n by simp
  from r(2) obtain P F where "panel_strategy ex_panel 1 2 = Inr F" "nrows F = nrows ex_panel"
    "wf_frame F"
    by (elim exE conjE)
  then have 2: "\<exists>F. panel_strategy ex_panel 1 2 = Inr F \<and> nrows F = 6 \<and> wf_frame F"
    using n by simp
  from h ne 1 2 show ?thesis by (intro conjI) simp_all
qed

subsection \<open>Where the slow average is defined\<close>

text \<open>
  C6. With the simple average and a slow window of at least 1, the slow average is missing
  at every row before row \<open>slow_window - 1\<close> and is a number from that row on; with the
  exponential average the slow average is a number at every row.
\<close>

theorem slow_average_defined:
  "(1 \<le> sw \<and> calculate_sma dfi fw sw = (None, out) \<longrightarrow>
      (\<exists>slow. cols out ''SlowMA'' = Some slow \<and> length slow = length (DlyClose dfi) \<and>
         (\<forall>i<length slow. (int i < sw - 1 \<longrightarrow> slow ! i = NaN) \<and>
                           (sw - 1 \<le> int i \<longrightarrow> (\<exists>v. slow ! i = Val v))))) \<and>
   (ema_strategy meta fw' sw' = Inr out' \<longrightarrow>
      (\<exists>slow. cols out' ''SlowEMA'' = Some slow \<and> length slow = length (DlyClose meta) \<and>
         (\<forall>i<length slow. \<exists>v. slow ! i = Val v)))"
proof (intro conjI impI)
  assume "1 \<le> sw \<and> calculate_sma dfi fw sw = (None, out)"
  then have sw: "1 \<le> sw" and a: "calculate_sma dfi fw sw = (None, out)" by simp_all
  define slow where "slow = map (window_mean (nat sw) (DlyClose dfi)) [0..<length (DlyClose dfi)]"
  have c: "cols out ''SlowMA'' = Some slow"
    using calculate_sma_None [OF a] by (simp add: slow_def)
  have v: "(int i < sw - 1 \<longrightarrow> slow ! i = NaN) \<and> (sw - 1 \<le> int i \<longrightarrow> (\<exists>v. slow ! i = Val v))"
    if "i < length (DlyClose dfi)" for i
    using that sw by (auto simp: slow_def window_mean_def)
  show "\<exists>slow. cols out ''SlowMA'' = Some slow \<and> length slow = length (DlyClose dfi) \<and>
         (\<forall>i<length slow. (int i < sw - 1 \<longrightarrow> slow ! i = NaN) \<and>
                           (sw - 1 \<le> int i \<longrightarrow> (\<exists>v. slow ! i = Val v)))"
    apply (rule exI [of _ slow])
    using c v by (simp add: slow_def)
next
  assume a: "ema_strategy meta fw' sw' = Inr out'"
  from ema_strategy_Inr [OF a] obtain fast slow md where
    s: "ewm_mean sw' (DlyClose meta) = Inr slow" and
    co: "cols out' = (cols meta)(''FastEMA'' \<mapsto> fast, ''SlowEMA'' \<mapsto> slow,
              ''Signal'' \<mapsto> where_isna slow (where_gt fast slow),
              ''Position'' \<mapsto> shift (where_isna slow (where_gt fast slow)),
              ''StratRet'' \<mapsto> mul_col (shift (where_isna slow (where_gt fast slow))) md,
              ''Strategy'' \<mapsto> minus_one (cumprod (one_plus
                  (mul_col (shift (where_isna slow (where_gt fast slow))) md))))"
    by blast
  have c: "cols out' ''SlowEMA'' = Some slow" by (simp add: co)
  show "\<exists>slow. cols out' ''SlowEMA'' = Some slow \<and> length slow = length (DlyClose meta) \<and>
         (\<forall>i<length slow. \<exists>v. slow ! i = Val v)"
    apply (rule exI [of _ slow])
    using c ewm_mean_Inr [OF s] by simp
qed

theorem slow_average_defined_witness:
  "(1::int) \<le> 3 \<and> calculate_sma ex_prices 2 3 = (None, snd (calculate_sma ex_prices 2 3)) \<and>
   cols (snd (calculate_sma ex_prices 2 3)) ''SlowMA'' =
     Some [NaN, NaN, Val (32 / 3), Val (31 / 3), Val (29 / 3), Val (31 / 3)] \<and>
   (\<exists>out. ema_strategy ex_meta 1 2 = Inr out \<and>
      cols out ''SlowEMA'' =
        Some [Val 10, Val 10, Val (34 / 3), Val (88 / 9), Val (232 / 27), Val (988 / 81)])"
  using slow_average_defined [of 3 ex_prices 2 "snd (calculate_sma ex_prices 2 3)" ex_meta 1 2]
  by (simp add: ex_eval)

subsection \<open>Panel mode against one asset alone\<close>

text \<open>
  C7. For a panel and any of its tickers, the rows of that ticker in the result of the two
  panel cells are the result of running the same cells on the rows of that ticker alone.
  In these rows the daily return is the plain \<^verbatim>\<open>pct_change\<close> of the ticker's prices, the
  position is the one \<^verbatim>\<open>calculate_sma\<close> gives on the ticker's rows, and the cumulative
  columns are the plain \<^verbatim>\<open>cumprod\<close> of one plus the ticker's daily returns: nothing comes
  from another ticker. Two tickers with the same daily returns have the same cumulative
  column.
\<close>

theorem panel_equals_single_asset:
  "wf_frame df \<and> t \<in> set (Ticker df) \<and> panel_strategy df fw sw = Inr F \<longrightarrow>
     panel_strategy (key_rows t df) fw sw = Inr (key_rows t F) \<and>
     (\<exists>position md sd.
        cols (snd (calculate_sma (key_rows t df) fw sw)) ''Position'' = Some position \<and>
        md = pct_change (DlyClose (key_rows t df)) \<and>
        sd = mul_col position md \<and>
        cols (key_rows t F) ''Position'' = Some position \<and>
        cols (key_rows t F) ''MarketDaily'' = Some md \<and>
        cols (key_rows t F) ''StrategyDaily'' = Some sd \<and>
        cols (key_rows t F) ''Market'' = Some (cumprod (one_plus md)) \<and>
        cols (key_rows t F) ''Strategy'' = Some (cumprod (one_plus sd))) \<and>
     (\<forall>u\<in>set (Ticker df).
        (cols (key_rows u F) ''MarketDaily'' = cols (key_rows t F) ''MarketDaily'' \<longrightarrow>
           cols (key_rows u F) ''Market'' = cols (key_rows t F) ''Market'') \<and>
        (cols (key_rows u F) ''StrategyDaily'' = cols (key_rows t F) ''StrategyDaily'' \<longrightarrow>
           cols (key_rows u F) ''Strategy'' = cols (key_rows t F) ''Strategy''))"
proof (intro impI conjI)
  assume a: "wf_frame df \<and> t \<in> set (Ticker df) \<and> panel_strategy df fw sw = Inr F"
  then have wf: "wf_frame df" and t: "t \<in> set (Ticker df)"
    and F: "panel_strategy df fw sw = Inr F" by simp_all
  show "panel_strategy (key_rows t df) fw sw = Inr (key_rows t F)"
    using wf t F by (rule key_rows_panel_strategy)
  from single_asset_columns [OF wf t F] obtain signal where
    s: "cols (sma_out (key_rows t df) fw sw) ''Position'' = Some (shift signal)"
      "cols (key_rows t F) ''Position'' = Some (shift signal)"
      "cols (key_rows t F) ''MarketDaily'' = Some (pct_change (DlyClose (key_rows t df)))"
      "cols (key_rows t F) ''StrategyDaily'' =
             Some (mul_col (shift signal) (pct_change (DlyClose (key_rows t df))))"
      "cols (key_rows t F) ''Market'' =
             Some (cumprod (one_plus (pct_change (DlyClose (key_rows t df)))))"
      "cols (key_rows t F) ''Strategy'' =
             Some (cumprod (one_plus (mul_col (shift signal) (pct_change (DlyClose (key_rows t df))))))"
    by blast
  show "\<exists>position md sd.
        cols (snd (calculate_sma (key_rows t df) fw sw)) ''Position'' = Some position \<and>
        md = pct_change (DlyClose (key_rows t df)) \<and>
        sd = mul_col position md \<and>
        cols (key_rows t F) ''Position'' = Some position \<and>
        cols (key_rows t F) ''MarketDaily'' = Some md \<and>
        cols (key_rows t F) ''StrategyDaily'' = Some sd \<and>
        cols (key_rows t F) ''Market'' = Some (cumprod (one_plus md)) \<and>
        cols (key_rows t F) ''Strategy'' = Some (cumprod (one_plus sd))"
    using s by (simp add: sma_out_def)
  show "\<forall>u\<in>set (Ticker df).
        (cols (key_rows u F) ''MarketDaily'' = cols (key_rows t F) ''MarketDaily'' \<longrightarrow>
           cols (key_rows u F) ''Market'' = cols (key_rows t F) ''Market'') \<and>
        (cols (key_rows u F) ''StrategyDaily'' = cols (key_rows t F) ''StrategyDaily'' \<longrightarrow>
           cols (key_rows u F) ''Strategy'' = cols (key_rows t F) ''Strategy'')"
  proof
    fix u assume u: "u \<in> set (Ticker df)"
    from single_asset_columns [OF wf u F] obtain signal' where
      s': "cols (key_rows u F) ''MarketDaily'' = Some (pct_change (DlyClose (key_rows u df)))"
      "cols (key_rows u F) ''StrategyDaily'' =
             Some (mul_col (shift signal') (pct_change (DlyClose (key_rows u df))))"
      "cols (key_rows u F) ''Market'' =
             Some (cumprod (one_plus (pct_change (DlyClose (key_rows u df)))))"
      "cols (key_rows u F) ''Strategy'' =
             Some (cumprod (one_plus (mul_col (shift signal') (pct_change (DlyClose (key_rows u df))))))"
      by blast
    show "(cols (key_rows u F) ''MarketDaily'' = cols (key_rows t F) ''MarketDaily'' \<longrightarrow>
           cols (key_rows u F) ''Market'' = cols (key_rows t F) ''Market'') \<and>
        (cols (key_rows u F) ''StrategyDaily'' = cols (key_rows t F) ''StrategyDaily'' \<longrightarrow>
           cols (key_rows u F) ''Strategy'' = cols (key_rows t F) ''Strategy'')"
      using s s' by simp
  qed
qed

theorem panel_equals_single_asset_witness:
  "wf_frame ex_panel \<and> ''A'' \<in> set (Ticker ex_panel) \<and> ''B'' \<in> set (Ticker ex_panel) \<and>
   (\<exists>F. panel_strategy ex_panel 1 2 = Inr F \<and>
      panel_strategy (key_rows ''A'' ex_panel) 1 2 = Inr (key_rows ''A'' F) \<and>
      cols (key_rows ''A'' F) ''MarketDaily'' = Some [NaN, Val (1 / 5), Val (- (1 / 4))] \<and>
      cols (key_rows ''A'' F) ''Market'' = Some [NaN, Val (6 / 5), Val (9 / 10)] \<and>
      cols (key_rows ''B'' F) ''Market'' = cols (key_rows ''A'' F) ''Market'')"
proof -
  have a: "''A'' \<in> set (Ticker ex_panel)" and b: "''B'' \<in> set (Ticker ex_panel)"
    by (simp_all add: ex_panel_def)
  have ne: "Ticker ex_panel \<noteq> []" by (simp add: ex_panel_def)
  have w: "(0::int) \<le> 1" "(0::int) \<le> 2" by simp_all
  from panel_strategy_facts [OF ex_panel_wf ne w] obtain P F where
    F: "panel_strategy ex_panel 1 2 = Inr F" by (elim exE conjE)
  have hA: "wf_frame ex_panel \<and> ''A'' \<in> set (Ticker ex_panel) \<and>
            panel_strategy ex_panel 1 2 = Inr F"
    using ex_panel_wf a F by (intro conjI)
  have hB: "wf_frame ex_panel \<and> ''B'' \<in> set (Ticker ex_panel) \<and>
            panel_strategy ex_panel 1 2 = Inr F"
    using ex_panel_wf b F by (intro conjI)
  note TA = panel_equals_single_asset [of ex_panel "''A''" 1 2 F, THEN mp, OF hA]
  note TB = panel_equals_single_asset [of ex_panel "''B''" 1 2 F, THEN mp, OF hB]
  from TA have A1: "panel_strategy (key_rows ''A'' ex_panel) 1 2 = Inr (key_rows ''A'' F)"
    by (rule conjunct1)
  from TA [THEN conjunct2, THEN conjunct1] obtain position md sd where
    "md = pct_change (DlyClose (key_rows ''A'' ex_panel))"
    "cols (key_rows ''A'' F) ''MarketDaily'' = Some md"
    "cols (key_rows ''A'' F) ''Market'' = Some (cumprod (one_plus md))"
    by (elim exE conjE)
  then have A: "cols (key_rows ''A'' F) ''MarketDaily'' =
       Some (pct_change (DlyClose (key_rows ''A'' ex_panel)))"
    "cols (key_rows ''A'' F) ''Market'' =
       Some (cumprod (one_plus (pct_change (DlyClose (key_rows ''A'' ex_panel)))))"
    by simp_all
  from TB [THEN conjunct2, THEN conjunct1] obtain position' md' sd' where
    "md' = pct_change (DlyClose (key_rows ''B'' ex_panel))"
    "cols (key_rows ''B'' F) ''MarketDaily'' = Some md'"
    by (elim exE conjE)
  then have B: "cols (key_rows ''B'' F) ''MarketDaily'' =
       Some (pct_change (DlyClose (key_rows ''B'' ex_panel)))"
    by simp
  from TA [THEN conjunct2, THEN conjunct2, THEN bspec, OF b]
  have A4: "cols (key_rows ''B'' F) ''MarketDaily'' = cols (key_rows ''A'' F) ''MarketDaily'' \<longrightarrow>
       cols (key_rows ''B'' F) ''Market'' = cols (key_rows ''A'' F) ''Market''"
    by (rule conjunct1)
  have md: "pct_change [10, 12, 9] = [NaN, Val (1 / 5), Val (- (1 / 4))]"
    by (simp add: pct_change_def pct_of_def shift_def fsub_def)
  have m: "cumprod (one_plus [NaN, Val (1 / 5), Val (- (1 / 4))]) = [NaN, Val (6 / 5), Val (9 / 10)]"
    by (simp add: cumprod_def one_plus_def isna_def)
  have "cols (key_rows ''B'' F) ''MarketDaily'' = cols (key_rows ''A'' F) ''MarketDaily''"
    using A(1) B by (simp add: ex_panel_rows)
  with A4 have eq: "cols (key_rows ''B'' F) ''Market'' = cols (key_rows ''A'' F) ''Market''"
    by (rule mp)
  have r: "panel_strategy ex_panel 1 2 = Inr F \<and>
      panel_strategy (key_rows ''A'' ex_panel) 1 2 = Inr (key_rows ''A'' F) \<and>
      cols (key_rows ''A'' F) ''MarketDaily'' = Some [NaN, Val (1 / 5), Val (- (1 / 4))] \<and>
      cols (key_rows ''A'' F) ''Market'' = Some [NaN, Val (6 / 5), Val (9 / 10)] \<and>
      cols (key_rows ''B'' F) ''Market'' = cols (key_rows ''A'' F) ''Market''"
    using F A1 A eq by (simp only: ex_panel_rows md m simp_thms)
  show ?thesis
    using ex_panel_wf a b r by (intro conjI exI [of _ F]) simp_all
qed

subsection \<open>Effect on the frame\<close>

text \<open>
  C8, as stated, fails: the frame passed to \<^verbatim>\<open>calculate_sma\<close> is changed by the call,
  it has a signal column afterwards that it did not have before.
\<close>

theorem frame_changed_counterexample:
  "snd (calculate_sma ex_prices 1 2) \<noteq> ex_prices \<and>
   cols ex_prices ''Signal'' = None \<and>
   cols (snd (calculate_sma ex_prices 1 2)) ''Signal'' =
     Some [Val 0, Val (- 1), Val 1, Val (- 1), Val (- 1), Val 1]"
proof -
  have c: "cols (snd (calculate_sma ex_prices 1 2)) ''Signal'' =
     Some [Val 0, Val (- 1), Val 1, Val (- 1), Val (- 1), Val 1]"
    by (simp add: ex_eval)
  have e: "cols ex_prices ''Signal'' = None" by (simp add: ex_prices_def)
  from c e have "snd (calculate_sma ex_prices 1 2) \<noteq> ex_prices" by auto
  with c e show ?thesis by simp
qed

text \<open>
  C8, amended. \<^verbatim>\<open>calculate_sma\<close> changes the frame it is given only by adding (or
  overwriting) the columns FastMA, SlowMA, Signal and Position: the tickers, the prices and
  every other column stay as they were. The four columns depend on the prices and the
  windows only, and a second run on the returned frame changes nothing.
\<close>

theorem adds_four_columns:
  "(calculate_sma dfi fw sw = (None, out) \<longrightarrow>
      Ticker out = Ticker dfi \<and> DlyClose out = DlyClose dfi \<and>
      (\<forall>n. n \<notin> {''FastMA'', ''SlowMA'', ''Signal'', ''Position''} \<longrightarrow> cols out n = cols dfi n) \<and>
      (\<forall>n\<in>{''FastMA'', ''SlowMA'', ''Signal'', ''Position''}. cols out n \<noteq> None) \<and>
      calculate_sma out fw sw = (None, out) \<and>
      (\<forall>dfi'. DlyClose dfi' = DlyClose dfi \<longrightarrow>
         (\<forall>n\<in>{''FastMA'', ''SlowMA'', ''Signal'', ''Position''}.
            cols (snd (calculate_sma dfi' fw sw)) n = cols out n)))"
proof
  assume a: "calculate_sma dfi fw sw = (None, out)"
  note r = calculate_sma_None [OF a]
  have w: "0 \<le> fw" "0 \<le> sw" using r by simp_all
  have again: "calculate_sma out fw sw = (None, out)"
  proof -
    obtain e out2 where o: "calculate_sma out fw sw = (e, out2)" by (cases "calculate_sma out fw sw")
    have "e = None" using calculate_sma_total [OF w, of out] o by simp
    with o have o': "calculate_sma out fw sw = (None, out2)" by simp
    note r2 = calculate_sma_None [OF o']
    have "Ticker out2 = Ticker out" "DlyClose out2 = DlyClose out" "cols out2 = cols out"
      using r r2 by (simp_all add: fun_upd_twist del: fun_upd_apply)
    then have "out2 = out" by simp
    with o' show ?thesis by simp
  qed
  have other: "\<forall>n\<in>{''FastMA'', ''SlowMA'', ''Signal'', ''Position''}.
            cols (snd (calculate_sma dfi' fw sw)) n = cols out n"
    if "DlyClose dfi' = DlyClose dfi" for dfi'
  proof -
    obtain e out2 where o: "calculate_sma dfi' fw sw = (e, out2)" by (cases "calculate_sma dfi' fw sw")
    have "e = None" using calculate_sma_total [OF w, of dfi'] o by simp
    with o have o': "calculate_sma dfi' fw sw = (None, out2)" by simp
    note r2 = calculate_sma_None [OF o']
    show ?thesis using r r2 that by (simp add: o)
  qed
  show "Ticker out = Ticker dfi \<and> DlyClose out = DlyClose dfi \<and>
      (\<forall>n. n \<notin> {''FastMA'', ''SlowMA'', ''Signal'', ''Position''} \<longrightarrow> cols out n = cols dfi n) \<and>
      (\<forall>n\<in>{''FastMA'', ''SlowMA'', ''Signal'', ''Position''}. cols out n \<noteq> None) \<and>
      calculate_sma out fw sw = (None, out) \<and>
      (\<forall>dfi'. DlyClose dfi' = DlyClose dfi \<longrightarrow>
         (\<forall>n\<in>{''FastMA'', ''SlowMA'', ''Signal'', ''Position''}.
            cols (snd (calculate_sma dfi' fw sw)) n = cols out n))"
    using r again other by simp
qed

theorem adds_four_columns_witness:
  "calculate_sma ex_prices 1 2 = (None, snd (calculate_sma ex_prices 1 2)) \<and>
   DlyClose (snd (calculate_sma ex_prices 1 2)) = [10, 10, 12, 9, 8, 14] \<and>
   calculate_sma (snd (calculate_sma ex_prices 1 2)) 1 2 = (None, snd (calculate_sma ex_prices 1 2))"
  using adds_four_columns [of ex_prices 1 2 "snd (calculate_sma ex_prices 1 2)"]
    calculate_sma_total [of 1 2 ex_prices]
  by (simp add: prod_eq_iff ex_prices_def)

subsection \<open>The exponential variant never gives a zero signal\<close>

text \<open>
  C9. In the exponential cell the slow average is never missing, so replacing the signal by
  0 where it is missing changes nothing: the signal is +1 or -1 at every row, also at the
  first (where both averages are the first price, a tie, so -1), and the position is +1 or
  -1 at every row from the second on.
\<close>

theorem ema_signal_never_zero:
  "ema_strategy meta fw sw = Inr out \<longrightarrow>
     (\<exists>fast slow signal position.
        cols out ''FastEMA'' = Some fast \<and> cols out ''SlowEMA'' = Some slow \<and>
        cols out ''Signal'' = Some signal \<and> cols out ''Position'' = Some position \<and>
        length signal = length (DlyClose meta) \<and> length position = length (DlyClose meta) \<and>
        where_isna slow (where_gt fast slow) = where_gt fast slow \<and>
        signal = where_gt fast slow \<and>
        (\<forall>i<length signal. (signal ! i = Val 1 \<or> signal ! i = Val (- 1)) \<and> signal ! i \<noteq> Val 0) \<and>
        (0 < length signal \<longrightarrow> signal ! 0 = Val (- 1)) \<and>
        (\<forall>i. 1 \<le> i \<and> i < length position \<longrightarrow>
             position ! i = Val 1 \<or> position ! i = Val (- 1)))"
proof
  assume a: "ema_strategy meta fw sw = Inr out"
  define n where "n = length (DlyClose meta)"
  from ema_strategy_Inr [OF a] obtain fast slow md where
    f: "ewm_mean fw (DlyClose meta) = Inr fast" and
    s: "ewm_mean sw (DlyClose meta) = Inr slow" and
    co: "cols out = (cols meta)(''FastEMA'' \<mapsto> fast, ''SlowEMA'' \<mapsto> slow,
              ''Signal'' \<mapsto> where_isna slow (where_gt fast slow),
              ''Position'' \<mapsto> shift (where_isna slow (where_gt fast slow)),
              ''StratRet'' \<mapsto> mul_col (shift (where_isna slow (where_gt fast slow))) md,
              ''Strategy'' \<mapsto> minus_one (cumprod (one_plus
                  (mul_col (shift (where_isna slow (where_gt fast slow))) md))))"
    by blast
  define signal where "signal = where_gt fast slow"
  have lf: "length fast = n" and ls: "length slow = n"
    using ewm_mean_Inr [OF f] ewm_mean_Inr [OF s] by (simp_all add: n_def)
  have len: "length signal = n"
    by (simp add: signal_def length_where_gt lf ls)
  have def: "\<not> isna (slow ! i)" if "i < n" for i
    using ewm_mean_Inr [OF s] that ls by (auto simp: isna_def)
  have noop: "where_isna slow signal = signal"
    by (rule where_isna_noop) (simp_all add: len ls def)
  have c: "cols out ''FastEMA'' = Some fast" "cols out ''SlowEMA'' = Some slow"
    "cols out ''Signal'' = Some signal" "cols out ''Position'' = Some (shift signal)"
    using noop by (simp_all add: co signal_def)
  have v: "signal ! i = Val 1 \<or> signal ! i = Val (- 1)" if "i < n" for i
    using that lf ls by (simp add: signal_def nth_where_gt)
  have v0: "signal ! 0 = Val (- 1)" if "0 < n"
  proof -
    have "DlyClose meta \<noteq> []" using that by (simp add: n_def)
    then have "fast ! 0 = slow ! 0" using f s by (rule ewm_mean_same_head [rotated 2])
    then show ?thesis using that lf ls by (simp add: signal_def nth_where_gt fgt_irrefl)
  qed
  have p: "shift signal ! i = Val 1 \<or> shift signal ! i = Val (- 1)" if "1 \<le> i" "i < n" for i
  proof -
    have "shift signal ! i = signal ! (i - 1)" using that len by (simp add: shift_nth_pos)
    then show ?thesis using v [of "i - 1"] that by auto
  qed
  show "\<exists>fast slow signal position.
        cols out ''FastEMA'' = Some fast \<and> cols out ''SlowEMA'' = Some slow \<and>
        cols out ''Signal'' = Some signal \<and> cols out ''Position'' = Some position \<and>
        length signal = length (DlyClose meta) \<and> length position = length (DlyClose meta) \<and>
        where_isna slow (where_gt fast slow) = where_gt fast slow \<and>
        signal = where_gt fast slow \<and>
        (\<forall>i<length signal. (signal ! i = Val 1 \<or> signal ! i = Val (- 1)) \<and> signal ! i \<noteq> Val 0) \<and>
        (0 < length signal \<longrightarrow> signal ! 0 = Val (- 1)) \<and>
        (\<forall>i. 1 \<le> i \<and> i < length position \<longrightarrow>
             position ! i = Val 1 \<or> position ! i = Val (- 1))"
    apply (rule exI [of _ fast], rule exI [of _ slow], rule exI [of _ signal],
        rule exI [of _ "shift signal"])
    apply (intro conjI)
    subgoal by (rule c)
    subgoal by (rule c)
    subgoal by (rule c)
    subgoal by (rule c)
    subgoal using len by (simp add: n_def)
    subgoal using len by (simp add: n_def length_shift)
    subgoal using noop by (simp add: signal_def)
    subgoal by (rule signal_def)
    subgoal using v len by fastforce
    subgoal using v0 len by simp
    subgoal using p len by (simp add: length_shift)
    done
qed

theorem ema_signal_never_zero_witness:
  "\<exists>out. ema_strategy ex_meta 1 2 = Inr out \<and>
      cols out ''Signal'' = Some [Val (- 1), Val (- 1), Val 1, Val (- 1), Val (- 1), Val 1] \<and>
      cols out ''Position'' = Some [NaN, Val (- 1), Val (- 1), Val 1, Val (- 1), Val (- 1)]"
  using ema_signal_never_zero [of ex_meta 1 2]
  by (simp add: ex_eval)

subsection \<open>The first row of each asset is missing\<close>

text \<open>
  C10. In the result of the panel cells, at the first row of every ticker the position and
  the daily return are missing, so the strategy daily return is missing (not zero) and the
  cumulative strategy column is missing there too. In the exponential cell the position at
  the first row is missing, so the strategy return and the cumulative strategy return at
  the first row are missing.
\<close>

theorem first_row_missing:
  "(wf_frame df \<and> panel_strategy df fw sw = Inr F \<longrightarrow>
      (\<exists>position md sd s.
         cols F ''Position'' = Some position \<and> cols F ''MarketDaily'' = Some md \<and>
         cols F ''StrategyDaily'' = Some sd \<and> cols F ''Strategy'' = Some s \<and>
         (\<forall>i<nrows F. (\<forall>j<i. Ticker F ! j \<noteq> Ticker F ! i) \<longrightarrow>
            position ! i = NaN \<and> md ! i = NaN \<and> sd ! i = NaN \<and> sd ! i \<noteq> Val 0 \<and>
            s ! i = NaN))) \<and>
   (wf_frame meta \<and> DlyClose meta \<noteq> [] \<and> ema_strategy meta fw' sw' = Inr out \<longrightarrow>
      (\<exists>position market_daily stratret s.
         cols out ''Position'' = Some position \<and> cols out ''MarketDaily'' = Some market_daily \<and>
         cols out ''StratRet'' = Some stratret \<and> cols out ''Strategy'' = Some s \<and>
         0 < length stratret \<and> 0 < length s \<and>
         position ! 0 = NaN \<and> stratret = mul_col position market_daily \<and>
         stratret ! 0 = NaN \<and> stratret ! 0 \<noteq> Val 0 \<and> s ! 0 = NaN))"
proof (intro conjI impI)
  assume a: "wf_frame df \<and> panel_strategy df fw sw = Inr F"
  then have wf: "wf_frame df" and F: "panel_strategy df fw sw = Inr F" by simp_all
  from F obtain P where P: "panel_sma df fw sw = Inr P"
    by (auto simp: panel_strategy_def split: sum.splits)
  from panel_sma_Inr [OF P] have ne: "Ticker df \<noteq> []" and w: "0 \<le> fw" "0 \<le> sw" by simp_all
  from panel_strategy_facts [OF wf ne w] F
  have "\<forall>n\<in>{''FastMA'', ''SlowMA'', ''Signal'', ''Position'',
                 ''MarketDaily'', ''StrategyDaily'', ''Market'', ''Strategy''}.
              \<exists>c. cols F n = Some c \<and> length c = nrows df"
    by auto
  then obtain position md sd s where
    c: "cols F ''Position'' = Some position" "cols F ''MarketDaily'' = Some md"
      "cols F ''StrategyDaily'' = Some sd" "cols F ''Strategy'' = Some s"
    by auto
  have "position ! i = NaN \<and> md ! i = NaN \<and> sd ! i = NaN \<and> sd ! i \<noteq> Val 0 \<and> s ! i = NaN"
    if "i < nrows F" "\<forall>j<i. Ticker F ! j \<noteq> Ticker F ! i" for i
    using first_row_of_key [OF wf F that c] by simp
  with c show "\<exists>position md sd s.
         cols F ''Position'' = Some position \<and> cols F ''MarketDaily'' = Some md \<and>
         cols F ''StrategyDaily'' = Some sd \<and> cols F ''Strategy'' = Some s \<and>
         (\<forall>i<nrows F. (\<forall>j<i. Ticker F ! j \<noteq> Ticker F ! i) \<longrightarrow>
            position ! i = NaN \<and> md ! i = NaN \<and> sd ! i = NaN \<and> sd ! i \<noteq> Val 0 \<and>
            s ! i = NaN)"
    by simp
next
  assume a: "wf_frame meta \<and> DlyClose meta \<noteq> [] \<and> ema_strategy meta fw' sw' = Inr out"
  then have wf: "wf_frame meta" and ne: "DlyClose meta \<noteq> []"
    and e: "ema_strategy meta fw' sw' = Inr out" by simp_all
  from ema_strategy_Inr [OF e] obtain fast slow md where
    f: "ewm_mean fw' (DlyClose meta) = Inr fast" and
    s: "ewm_mean sw' (DlyClose meta) = Inr slow" and
    md: "cols meta ''MarketDaily'' = Some md" and
    co: "cols out = (cols meta)(''FastEMA'' \<mapsto> fast, ''SlowEMA'' \<mapsto> slow,
              ''Signal'' \<mapsto> where_isna slow (where_gt fast slow),
              ''Position'' \<mapsto> shift (where_isna slow (where_gt fast slow)),
              ''StratRet'' \<mapsto> mul_col (shift (where_isna slow (where_gt fast slow))) md,
              ''Strategy'' \<mapsto> minus_one (cumprod (one_plus
                  (mul_col (shift (where_isna slow (where_gt fast slow))) md))))"
    by blast
  define position where "position = shift (where_isna slow (where_gt fast slow))"
  define n where "n = length (DlyClose meta)"
  have n: "0 < n" using ne by (simp add: n_def)
  have lp: "length position = n"
    using ewm_mean_Inr [OF f] ewm_mean_Inr [OF s]
    by (simp add: position_def length_shift length_where_isna length_where_gt n_def)
  have lmd: "length md = n" using wf md by (simp add: wf_frame_def n_def)
  have p0: "position ! 0 = NaN"
    unfolding position_def using lp n by (intro shift_nth_0) (simp add: position_def length_shift)
  have pne: "position \<noteq> []" and mne: "md \<noteq> []" using lp lmd n by auto
  have sr0: "mul_col position md ! 0 = NaN" using pne mne p0 by (rule mul_col_first_NaN)
  have lsr: "length (mul_col position md) = n" using lp lmd by (simp add: length_mul_col)
  then have srne: "mul_col position md \<noteq> []" using n by auto
  have o0: "one_plus (mul_col position md) ! 0 = NaN" using srne sr0 by (rule one_plus_first_NaN)
  have one: "one_plus (mul_col position md) \<noteq> []" using srne by (simp add: one_plus_def)
  have c0: "cumprod (one_plus (mul_col position md)) ! 0 = NaN"
    using one o0 by (rule cumprod_first_NaN)
  have lc: "length (cumprod (one_plus (mul_col position md))) = n"
    using lsr by (simp add: length_cumprod length_one_plus)
  then have cne: "cumprod (one_plus (mul_col position md)) \<noteq> []" using n by auto
  have s0: "minus_one (cumprod (one_plus (mul_col position md))) ! 0 = NaN"
    using cne c0 by (rule minus_one_first_NaN)
  have ls: "length (minus_one (cumprod (one_plus (mul_col position md)))) = n"
    using lc by (simp add: minus_one_def)
  have cs: "cols out ''Position'' = Some position" "cols out ''MarketDaily'' = Some md"
    "cols out ''StratRet'' = Some (mul_col position md)"
    "cols out ''Strategy'' = Some (minus_one (cumprod (one_plus (mul_col position md))))"
    by (simp_all add: co position_def md)
  show "\<exists>position market_daily stratret s.
         cols out ''Position'' = Some position \<and> cols out ''MarketDaily'' = Some market_daily \<and>
         cols out ''StratRet'' = Some stratret \<and> cols out ''Strategy'' = Some s \<and>
         0 < length stratret \<and> 0 < length s \<and>
         position ! 0 = NaN \<and> stratret = mul_col position market_daily \<and>
         stratret ! 0 = NaN \<and> stratret ! 0 \<noteq> Val 0 \<and> s ! 0 = NaN"
    apply (rule exI [of _ position], rule exI [of _ md], rule exI [of _ "mul_col position md"],
        rule exI [of _ "minus_one (cumprod (one_plus (mul_col position md)))"])
    using cs p0 sr0 s0 lsr ls n by simp
qed

theorem first_row_missing_witness:
  "wf_frame ex_panel \<and>
   (\<exists>F sd s. panel_strategy ex_panel 1 2 = Inr F \<and>
      Ticker F = [''A'', ''A'', ''A'', ''B'', ''B'', ''B''] \<and>
      cols F ''StrategyDaily'' = Some sd \<and> cols F ''Strategy'' = Some s \<and>
      sd ! 0 = NaN \<and> sd ! 3 = NaN \<and> s ! 0 = NaN \<and> s ! 3 = NaN) \<and>
   wf_frame ex_meta \<and> DlyClose ex_meta \<noteq> [] \<and>
   (\<exists>out stratret s. ema_strategy ex_meta 1 2 = Inr out \<and>
      cols out ''StratRet'' = Some stratret \<and> cols out ''Strategy'' = Some s \<and>
      stratret ! 0 = NaN \<and> s ! 0 = NaN)"
proof -
  from ex_panel_ticker obtain F where
    F: "panel_strategy ex_panel 1 2 = Inr F" and
    T: "Ticker F = [''A'', ''A'', ''A'', ''B'', ''B'', ''B'']"
    by (elim exE conjE)
  have wfm: "wf_frame ex_meta" by (simp add: wf_frame_def ex_meta_def)
  have nem: "DlyClose ex_meta \<noteq> []" by (simp add: ex_meta_def)
  obtain out where out: "ema_strategy ex_meta 1 2 = Inr out"
    by (simp add: ex_eval)
  have h1: "wf_frame ex_panel \<and> panel_strategy ex_panel 1 2 = Inr F"
    using ex_panel_wf F by (intro conjI)
  have h2: "wf_frame ex_meta \<and> DlyClose ex_meta \<noteq> [] \<and> ema_strategy ex_meta 1 2 = Inr out"
    using wfm nem out by (intro conjI)
  note th = first_row_missing [of ex_panel 1 2 F ex_meta 1 2 out]
  from th [THEN conjunct1, THEN mp, OF h1] obtain position md sd s where
    c: "cols F ''StrategyDaily'' = Some sd" "cols F ''Strategy'' = Some s" and
    r: "\<forall>i<nrows F. (\<forall>j<i. Ticker F ! j \<noteq> Ticker F ! i) \<longrightarrow>
            position ! i = NaN \<and> md ! i = NaN \<and> sd ! i = NaN \<and> sd ! i \<noteq> Val 0 \<and>
            s ! i = NaN"
    by (elim exE conjE)
  have f0: "\<forall>j<0. Ticker F ! j \<noteq> Ticker F ! 0" by simp
  have f3: "\<forall>j<3. Ticker F ! j \<noteq> Ticker F ! 3"
    by (simp add: T All_less_Suc numeral_3_eq_3)
  have n: "0 < nrows F" "3 < nrows F" by (simp_all add: nrows_def T)
  from r n(1) f0 have r0: "sd ! 0 = NaN \<and> s ! 0 = NaN" by blast
  from r n(2) f3 have r3: "sd ! 3 = NaN \<and> s ! 3 = NaN" by blast
  have 1: "\<exists>F sd s. panel_strategy ex_panel 1 2 = Inr F \<and>
      Ticker F = [''A'', ''A'', ''A'', ''B'', ''B'', ''B''] \<and>
      cols F ''StrategyDaily'' = Some sd \<and> cols F ''Strategy'' = Some s \<and>
      sd ! 0 = NaN \<and> sd ! 3 = NaN \<and> s ! 0 = NaN \<and> s ! 3 = NaN"
    apply (rule exI [of _ F], rule exI [of _ sd], rule exI [of _ s])
    using F T c r0 r3 by simp
  from th [THEN conjunct2, THEN mp, OF h2] obtain position' md' stratret s' where
    "cols out ''StratRet'' = Some stratret" "cols out ''Strategy'' = Some s'"
    "stratret ! 0 = NaN" "s' ! 0 = NaN"
    by (elim exE conjE)
  then have 2: "\<exists>out stratret s. ema_strategy ex_meta 1 2 = Inr out \<and>
      cols out ''StratRet'' = Some stratret \<and> cols out ''Strategy'' = Some s \<and>
      stratret ! 0 = NaN \<and> s ! 0 = NaN"
    using out by blast
  from ex_panel_wf 1 wfm nem 2 show ?thesis by (intro conjI)
qed

end
